theory Spec2Isabelle
  imports Complex_Main
begin

section \<open>Door access control of the smart-home backend\<close>

text \<open>
  The development embeds the door subsystem of the backend: the card and door store
  operations of \<^verbatim>\<open>src/services/door.service.js\<close>, the RFID handler of
  \<^verbatim>\<open>src/services/mqtt.service.js\<close>, the alert and push services it calls, the PIN
  route of the door router, and the two simulators of
  \<^verbatim>\<open>tests/door-auth/door-auth.property.test.js\<close>.

  Conventions. Every \<^verbatim>\<open>async\<close> function is run to completion before the next one
  starts, so a function is a state transformer on the tables it touches. A thrown exception
  is the \<open>Inl\<close> of a sum, returned together with the state reached when it was thrown
  (no operation here runs in a transaction). \<^verbatim>\<open>crypto\<close>'s SHA-256 is a parameter
  \<open>H\<close> of every function that digests, and the runtime's
  \<^verbatim>\<open>String.prototype.toUpperCase\<close> a parameter \<open>toUpperCase\<close> of every function
  that calls it. JavaScript numbers that only count are \<open>nat\<close>. Vietnamese message
  texts are constructors of a datatype, named in English.
\<close>

subsection \<open>The simulators of the property tests\<close>

text \<open>\<^verbatim>\<open>class FailedAttemptCounter\<close>: the constructor, \<^verbatim>\<open>recordAttempt\<close> (which
  returns the new count) and \<^verbatim>\<open>shouldTriggerAlarm\<close>.\<close>

record FailedAttemptCounter =
  count :: nat
  alarmThreshold :: nat

definition new_FailedAttemptCounter :: FailedAttemptCounter where
  "new_FailedAttemptCounter = \<lparr>count = 0, alarmThreshold = 5\<rparr>"

definition recordAttempt :: "bool \<Rightarrow> FailedAttemptCounter \<Rightarrow> nat \<times> FailedAttemptCounter" where
  "recordAttempt success this =
     (let this' = (if success then this\<lparr>count := 0\<rparr> else this\<lparr>count := count this + 1\<rparr>)
      in (count this', this'))"

definition shouldTriggerAlarm :: "FailedAttemptCounter \<Rightarrow> bool" where
  "shouldTriggerAlarm this = (count this \<ge> alarmThreshold this)"

text \<open>Feeding a sequence of outcomes in order, as the test's \<^verbatim>\<open>for\<close> loop does.\<close>

fun feed :: "bool list \<Rightarrow> FailedAttemptCounter \<Rightarrow> FailedAttemptCounter" where
  "feed [] this = this"
| "feed (success # rest) this = feed rest (snd (recordAttempt success this))"

text \<open>The specification's count: the consecutive \<open>False\<close> outcomes since the most
  recent \<open>True\<close>, read from the end of the sequence.\<close>

definition consecutive_failures :: "bool list \<Rightarrow> nat" where
  "consecutive_failures outcomes = length (takeWhile (\<lambda>b. \<not> b) (rev outcomes))"

text \<open>\<^verbatim>\<open>simulatePinAuth(inputPin, storedPinHash, rfidValidated = false)\<close>.\<close>

record pin_auth_result =
  success :: bool
  shouldUnlock :: bool
  pin_method :: string

definition simulatePinAuth :: "(string \<Rightarrow> string) \<Rightarrow> string \<Rightarrow> string \<Rightarrow> bool \<Rightarrow> pin_auth_result" where
  "simulatePinAuth H inputPin storedPinHash rfidValidated =
     (let inputHash = H inputPin;
          isValid = (inputHash = storedPinHash)
      in \<lparr>success = isValid,
          shouldUnlock = isValid,
          pin_method = (if isValid then ''pin'' else ''invalid_pin'')\<rparr>)"

subsection \<open>Strings and JSON values\<close>

text \<open>A string is the sequence of its code units; every string literal of the source is
  ASCII. Nothing below fixes what \<open>toUpperCase\<close> does to a string: the runtime's function
  follows the Unicode case mappings and may change the length.

  Two UIDs are equal up to letter case when they have the same upper-case form; a case
  mapping never empties a string, so both are empty or neither is.\<close>

definition equal_up_to_case :: "(string \<Rightarrow> string) \<Rightarrow> string \<Rightarrow> string \<Rightarrow> bool" where
  "equal_up_to_case toUpperCase u v = (toUpperCase u = toUpperCase v \<and> (u = []) = (v = []))"

text \<open>A field of a device message is absent (\<^verbatim>\<open>undefined\<close>) or holds a JSON value:
  \<^verbatim>\<open>null\<close>, a boolean, a number, a string or an array. An object in a field is left
  out: Prisma would read it as a query filter.\<close>

datatype json = JUndefined | JNull | JBool bool | JNum real | JStr string | JArr "json list"

fun truthy :: "json \<Rightarrow> bool" where
  "truthy JUndefined = False"
| "truthy JNull = False"
| "truthy (JBool b) = b"
| "truthy (JNum x) = (x \<noteq> 0)"
| "truthy (JStr str) = (str \<noteq> [])"
| "truthy (JArr xs) = True"

text \<open>\<^verbatim>\<open>!x\<close> on a field, and on a numeric id that is \<^verbatim>\<open>null\<close>, absent or a
  number.\<close>

definition falsy :: "json \<Rightarrow> bool" where
  "falsy x = (\<not> truthy x)"

definition falsy_id :: "nat option \<Rightarrow> bool" where
  "falsy_id x = (case x of None \<Rightarrow> True | Some n \<Rightarrow> n = 0)"

text \<open>\<^verbatim>\<open>x || d\<close> on a field, and on a result property that is absent or a string.\<close>

definition or_json :: "json \<Rightarrow> json \<Rightarrow> json" where
  "or_json x d = (if truthy x then x else d)"

definition or_else :: "string option \<Rightarrow> string \<Rightarrow> string" where
  "or_else x d = (case x of None \<Rightarrow> d | Some str \<Rightarrow> if str = [] then d else str)"

subsection \<open>The store\<close>

text \<open>
  The tables the door service reads and writes through Prisma, rows in insertion order.
  Fields no function below reads (door name and location, online flag, creation dates,
  the owner and platform of a push token) are left out. The schema file is not among the sources, so the tables carry no database-side
  constraint: a relation included in a query (\<^verbatim>\<open>include: { user: ... }\<close>) is looked
  up in the user table and is \<^verbatim>\<open>null\<close> when the row is missing, and what keeps cards
  unique is what the service itself checks.
\<close>

datatype card_status = ACTIVE | REVOKED

datatype role = ADMIN | USER

record user =
  username :: string
  role :: role

record RfidCard =
  card_id :: nat
  card_doorId :: nat
  card_userId :: nat
  uid :: string
  uidHash :: string
  status :: card_status

record Door =
  door_id :: nat
  pinHash :: string
  enrollmentMode :: bool
  enrollmentUserId :: "nat option"

record DoorAccessLog =
  log_doorId :: nat
  log_userId :: "nat option"
  event :: string
  rfidUid :: "string option"
  log_method :: "string option"
  timestamp :: nat

datatype alert_level = INFO | WARNING | CRITICAL

datatype alert_message = PinChangedBy string

record Alert =
  alert_id :: nat
  alert_type :: string
  level :: alert_level
  message :: alert_message
  createdAt :: nat

record PushToken =
  token_id :: nat
  token :: string

record store =
  door :: "Door option"
  users :: "nat \<rightharpoonup> user"
  rfidCards :: "RfidCard list"
  doorAccessLogs :: "DoorAccessLog list"
  alerts :: "Alert list"
  pushTokens :: "PushToken list"
  nextCardId :: nat

text \<open>What a call throws: the service's own \<^verbatim>\<open>Error\<close>s (wrong current PIN, user
  already holds a card, UID already in use, user holds no card), Prisma's errors (an update
  of a missing row, an argument of the wrong type, a rejected query), and the
  \<^verbatim>\<open>TypeError\<close> of a property read on \<^verbatim>\<open>null\<close> or of a call of
  \<^verbatim>\<open>toUpperCase\<close> on a value that is no string.\<close>

datatype error =
    WrongCurrentPin
  | UserAlreadyHasCard
  | UidAlreadyUsed
  | UserHasNoCard
  | RecordNotFound
  | ValidationError
  | DatabaseError
  | TypeError

subsection \<open>The environment\<close>

text \<open>
  What a run cannot decide by itself is an input: whether Firebase credentials are there
  for \<^verbatim>\<open>initFirebase\<close>, whether the insert of a log entry
  (\<^verbatim>\<open>prisma.doorAccessLog.create\<close>), the query of the push tokens
  (\<^verbatim>\<open>prisma.pushToken.findMany\<close>) and the deletion of push tokens
  (\<^verbatim>\<open>prisma.pushToken.deleteMany\<close>) are rejected, and what
  \<^verbatim>\<open>sendEachForMulticast\<close> answers for a list of tokens: one response per token
  (delivered, refused because the token is invalid or no longer registered, or failed
  otherwise), or \<open>None\<close> when the call throws. Every other database call resolves.
\<close>

datatype fcm_response = Delivered | InvalidToken | OtherFailure

record environment =
  firebaseCredentials :: bool
  logInsertRejects :: bool
  tokenQueryRejects :: bool
  tokenDeleteRejects :: bool
  sendEachForMulticast :: "string list \<Rightarrow> fcm_response list option"

subsection \<open>door.service.js\<close>

text \<open>\<^verbatim>\<open>getOrCreateDoor(pin = '1234')\<close>; a created door gets the identifier 0 and the
  column defaults (not enrolling).\<close>

definition getOrCreateDoor :: "(string \<Rightarrow> string) \<Rightarrow> string \<Rightarrow> store \<Rightarrow> Door \<times> store" where
  "getOrCreateDoor H pin s =
     (case door s of
        Some d \<Rightarrow> (d, s)
      | None \<Rightarrow>
          (let d = \<lparr>door_id = 0, pinHash = H pin, enrollmentMode = False,
                    enrollmentUserId = None\<rparr>
           in (d, s\<lparr>door := Some d\<rparr>)))"

definition updateDoorPin ::
  "(string \<Rightarrow> string) \<Rightarrow> string \<Rightarrow> string \<Rightarrow> store \<Rightarrow> (error + Door) \<times> store" where
  "updateDoorPin H newPin currentPin s =
     (let (d, s1) = getOrCreateDoor H ''1234'' s;
          currentPinHash = H currentPin
      in if pinHash d \<noteq> currentPinHash then (Inl WrongCurrentPin, s1)
         else (let d' = d\<lparr>pinHash := H newPin\<rparr>
               in (Inr d', s1\<lparr>door := Some d'\<rparr>)))"

text \<open>The message texts of an enrollment scan's result: not in enrollment mode, card
  already assigned to the named user, card registered for the named user.\<close>

datatype scan_message = NotInEnrollmentMode | CardAssignedTo string | CardEnrolledFor string

datatype scan_result = ScanFailure scan_message | ScanSuccess RfidCard scan_message

definition exit_enrollment :: "Door \<Rightarrow> store \<Rightarrow> store" where
  "exit_enrollment d s = s\<lparr>door := Some (d\<lparr>enrollmentMode := False, enrollmentUserId := None\<rparr>)\<rparr>"

definition create_card :: "nat \<Rightarrow> nat \<Rightarrow> string \<Rightarrow> string \<Rightarrow> store \<Rightarrow> RfidCard \<times> store" where
  "create_card doorId userId uidUpper h s =
     (let newCard = \<lparr>card_id = nextCardId s, card_doorId = doorId, card_userId = userId,
                      uid = uidUpper, uidHash = h, status = ACTIVE\<rparr>
      in (newCard, s\<lparr>rfidCards := rfidCards s @ [newCard], nextCardId := Suc (nextCardId s)\<rparr>))"

definition processEnrollmentScan ::
  "(string \<Rightarrow> string) \<Rightarrow> (string \<Rightarrow> string) \<Rightarrow> nat \<Rightarrow> string \<Rightarrow> store
     \<Rightarrow> (error + scan_result) \<times> store" where
  "processEnrollmentScan H toUpperCase now scanned s =
     (case door s of
        None \<Rightarrow> (Inr (ScanFailure NotInEnrollmentMode), s)
      | Some d \<Rightarrow>
          if \<not> enrollmentMode d \<or> falsy_id (enrollmentUserId d)
          then (Inr (ScanFailure NotInEnrollmentMode), s)
          else
            (case enrollmentUserId d of
               None \<Rightarrow> (Inr (ScanFailure NotInEnrollmentMode), s)
             | Some userId \<Rightarrow>
                 (let uidUpper = toUpperCase scanned;
                      h = H uidUpper
                  in case find (\<lambda>c. uidHash c = h \<and> status c = ACTIVE \<and> card_userId c \<noteq> userId)
                            (rfidCards s) of
                       Some existingCardWithUid \<Rightarrow>
                         (let s1 = exit_enrollment d s
                          in case users s (card_userId existingCardWithUid) of
                               None \<Rightarrow> (Inl TypeError, s1)
                             | Some holder \<Rightarrow>
                                 (Inr (ScanFailure (CardAssignedTo (username holder))), s1))
                     | None \<Rightarrow>
                         (let s1 = s\<lparr>rfidCards :=
                                       filter (\<lambda>c. \<not> (uidHash c = h \<and> card_userId c \<noteq> userId))
                                         (rfidCards s)\<rparr>;
                              s2 = s1\<lparr>rfidCards :=
                                        filter (\<lambda>c. card_userId c \<noteq> userId) (rfidCards s1)\<rparr>;
                              (newCard, s3) = create_card (door_id d) userId uidUpper h s2;
                              s4 = exit_enrollment d s3;
                              s5 = s4\<lparr>doorAccessLogs := doorAccessLogs s4 @
                                        [\<lparr>log_doorId = door_id d, log_userId = Some userId,
                                          event = ''enrollment_success'',
                                          rfidUid = Some uidUpper,
                                          log_method = Some ''enrollment'',
                                          timestamp = now\<rparr>]\<rparr>
                          in case users s userId of
                               None \<Rightarrow> (Inl TypeError, s5)
                             | Some owner \<Rightarrow>
                                 (Inr (ScanSuccess newCard (CardEnrolledFor (username owner))),
                                  s5)))))"

text \<open>\<^verbatim>\<open>prisma.rfidCard.update({ where: { id }, data: { status: 'REVOKED' } })\<close>: the
  row with that primary key is rewritten, and a missing row is an error.\<close>

definition revoke_by_id :: "nat \<Rightarrow> store \<Rightarrow> (error + RfidCard) \<times> store" where
  "revoke_by_id cardId s =
     (case find (\<lambda>c. card_id c = cardId) (rfidCards s) of
        None \<Rightarrow> (Inl RecordNotFound, s)
      | Some found \<Rightarrow>
          (Inr (found\<lparr>status := REVOKED\<rparr>),
           s\<lparr>rfidCards :=
               map (\<lambda>c. if card_id c = cardId then c\<lparr>status := REVOKED\<rparr> else c)
                 (rfidCards s)\<rparr>))"

definition revokeUserCard :: "nat \<Rightarrow> store \<Rightarrow> (error + RfidCard) \<times> store" where
  "revokeUserCard userId s =
     (case find (\<lambda>c. card_userId c = userId \<and> status c = ACTIVE) (rfidCards s) of
        None \<Rightarrow> (Inl UserHasNoCard, s)
      | Some found \<Rightarrow> revoke_by_id (card_id found) s)"

definition addRfidCard ::
  "(string \<Rightarrow> string) \<Rightarrow> (string \<Rightarrow> string) \<Rightarrow> nat \<Rightarrow> string \<Rightarrow> store
     \<Rightarrow> (error + RfidCard) \<times> store" where
  "addRfidCard H toUpperCase userId entered s =
     (let (d, s1) = getOrCreateDoor H ''1234'' s
      in case find (\<lambda>c. card_userId c = userId \<and> status c = ACTIVE) (rfidCards s1) of
           Some existingUserCard \<Rightarrow> (Inl UserAlreadyHasCard, s1)
         | None \<Rightarrow>
             (let uidUpper = toUpperCase entered;
                  h = H uidUpper
              in case find (\<lambda>c. uidHash c = h \<and> status c = ACTIVE) (rfidCards s1) of
                   Some existingUidCard \<Rightarrow> (Inl UidAlreadyUsed, s1)
                 | None \<Rightarrow>
                     (let (newCard, s2) = create_card (door_id d) userId uidUpper h s1
                      in (Inr newCard, s2))))"

definition removeRfidCard :: "nat \<Rightarrow> store \<Rightarrow> (error + RfidCard) \<times> store" where
  "removeRfidCard cardId s = revoke_by_id cardId s"

text \<open>\<^verbatim>\<open>authenticateRfid(uidHash)\<close>: the first card with that digest decides. Both
  results that name the holder read \<^verbatim>\<open>card.user.username\<close>.\<close>

record auth_result =
  allowed :: bool
  reason :: "string option"
  userId :: "nat option"
  auth_username :: "string option"
  auth_role :: "role option"

definition authenticateRfid :: "string \<Rightarrow> store \<Rightarrow> error + auth_result" where
  "authenticateRfid h s =
     (case find (\<lambda>c. uidHash c = h) (rfidCards s) of
        None \<Rightarrow>
          Inr \<lparr>allowed = False, reason = Some ''unknown_card'', userId = None,
               auth_username = None, auth_role = None\<rparr>
      | Some found \<Rightarrow>
          if status found = REVOKED
          then (case users s (card_userId found) of
                  None \<Rightarrow> Inl TypeError
                | Some holder \<Rightarrow>
                    Inr \<lparr>allowed = False, reason = Some ''card_revoked'',
                         userId = Some (card_userId found),
                         auth_username = Some (username holder), auth_role = None\<rparr>)
          else (case users s (card_userId found) of
                  None \<Rightarrow> Inl TypeError
                | Some holder \<Rightarrow>
                    Inr \<lparr>allowed = True, reason = None,
                         userId = Some (card_userId found),
                         auth_username = Some (username holder),
                         auth_role = Some (role holder)\<rparr>))"

text \<open>\<^verbatim>\<open>getUserByRfidHash\<close> returns the user object (identifier and row) or
  \<^verbatim>\<open>null\<close>.\<close>

definition getUserByRfidHash :: "string \<Rightarrow> store \<Rightarrow> (nat \<times> user) option" where
  "getUserByRfidHash h s =
     (case find (\<lambda>c. uidHash c = h \<and> status c = ACTIVE) (rfidCards s) of
        None \<Rightarrow> None
      | Some found \<Rightarrow>
          (case users s (card_userId found) of
             None \<Rightarrow> None
           | Some holder \<Rightarrow> Some (card_userId found, holder)))"

text \<open>The user a log entry is attributed to in \<^verbatim>\<open>createAccessLog\<close>: the given one,
  or, when none is given and the entry carries a UID, the holder of the ACTIVE card with the
  digest of that UID in upper case. \<^verbatim>\<open>rfidUid.toUpperCase()\<close> throws when the UID
  is not a string.\<close>

definition resolve_log_user ::
  "(string \<Rightarrow> string) \<Rightarrow> (string \<Rightarrow> string) \<Rightarrow> json \<Rightarrow> nat option \<Rightarrow> store
     \<Rightarrow> error + nat option" where
  "resolve_log_user H toUpperCase rfid given s =
     (if falsy_id given \<and> truthy rfid
      then (case rfid of
              JStr r \<Rightarrow>
                Inr (case getUserByRfidHash (H (toUpperCase r)) s of
                       None \<Rightarrow> None
                     | Some (i, holder) \<Rightarrow> if i = 0 then None else Some i)
            | _ \<Rightarrow> Inl TypeError)
      else Inr given)"

text \<open>The value of the \<^verbatim>\<open>rfidUid\<close> column (a nullable string) for a field: Prisma
  refuses a value that is neither absent, \<^verbatim>\<open>null\<close> nor a string.\<close>

definition rfidUid_column :: "json \<Rightarrow> error + string option" where
  "rfidUid_column rfid =
     (case rfid of
        JUndefined \<Rightarrow> Inr None
      | JNull \<Rightarrow> Inr None
      | JStr r \<Rightarrow> Inr (Some r)
      | _ \<Rightarrow> Inl ValidationError)"

text \<open>\<^verbatim>\<open>createAccessLog({ event, rfidUid, method, userId = null })\<close>, called with
  strings for \<open>event\<close> and \<open>method\<close>.\<close>

definition createAccessLog ::
  "(string \<Rightarrow> string) \<Rightarrow> (string \<Rightarrow> string) \<Rightarrow> environment \<Rightarrow> nat \<Rightarrow> string \<Rightarrow> json
     \<Rightarrow> string option \<Rightarrow> nat option \<Rightarrow> store \<Rightarrow> (error + DoorAccessLog) \<times> store" where
  "createAccessLog H toUpperCase env now ev rfid meth given s =
     (let (d, s1) = getOrCreateDoor H ''1234'' s
      in case resolve_log_user H toUpperCase rfid given s1 of
           Inl e \<Rightarrow> (Inl e, s1)
         | Inr resolved \<Rightarrow>
             (case rfidUid_column rfid of
                Inl e \<Rightarrow> (Inl e, s1)
              | Inr column \<Rightarrow>
                  if logInsertRejects env then (Inl DatabaseError, s1)
                  else
                    (let entry = \<lparr>log_doorId = door_id d, log_userId = resolved, event = ev,
                                   rfidUid = column, log_method = meth, timestamp = now\<rparr>
                     in (Inr entry, s1\<lparr>doorAccessLogs := doorAccessLogs s1 @ [entry]\<rparr>))))"

text \<open>The invariant of the card table: among the ACTIVE cards no two belong to the same
  user and no two carry the same UID digest.\<close>

definition active_cards :: "RfidCard list \<Rightarrow> RfidCard list" where
  "active_cards cards = filter (\<lambda>c. status c = ACTIVE) cards"

definition card_invariant :: "RfidCard list \<Rightarrow> bool" where
  "card_invariant cards =
     (distinct (map card_userId (active_cards cards))
      \<and> distinct (map uidHash (active_cards cards)))"

subsection \<open>mqtt.service.js, alert.service.js and push.service.js\<close>

text \<open>
  Beside the store, the process holds the MQTT client (\<^verbatim>\<open>client\<close>, set by
  \<^verbatim>\<open>connect()\<close>), the publish function injected into the alert service on the
  first connection (\<^verbatim>\<open>mqttPublish\<close>), the push service's flag
  \<^verbatim>\<open>firebaseInitialized\<close>, and what it has sent: the messages published, in
  order, and the notifications handed to Firebase, each with the tokens it went to.
  \<^verbatim>\<open>Date.now()\<close> and the database's \<^verbatim>\<open>CURRENT_TIMESTAMP\<close> are the parameter
  \<open>now\<close>.
\<close>

datatype payload =
    RfidResult (res_uid: json) (allow: bool) (res_username: "string option")
      (res_reason: "string option") (res_timestamp: nat)
  | ConfigPin (cfg_pinHash: string) (cfg_timestamp: nat)
  | AlertNew Alert

text \<open>The two notifications: access denied (user name and reason) and PIN changed (the
  administrator's name).\<close>

datatype push = AccessDeniedPush string "string option" | PinChangedPush string

record world =
  db :: store
  outbox :: "(string \<times> payload) list"
  pushes :: "(push \<times> string list) list"
  mqttClient :: bool
  alertMqttPublish :: bool
  firebaseInitialized :: bool

definition publish :: "string \<Rightarrow> payload \<Rightarrow> world \<Rightarrow> world" where
  "publish topic msg w = (if mqttClient w then w\<lparr>outbox := outbox w @ [(topic, msg)]\<rparr> else w)"

text \<open>\<^verbatim>\<open>initFirebase()\<close>: once initialised it stays so; otherwise it succeeds when
  the credentials are there. It catches its own errors.\<close>

definition initFirebase :: "environment \<Rightarrow> world \<Rightarrow> world" where
  "initFirebase env w =
     (if firebaseInitialized w then w
      else if firebaseCredentials env then w\<lparr>firebaseInitialized := True\<rparr>
      else w)"

text \<open>The identifiers of the tokens Firebase refused as invalid or unregistered:
  \<^verbatim>\<open>failedTokens\<close>, collected by index over the responses. A refusal at an index
  beyond the tokens reads \<^verbatim>\<open>tokens[idx].id\<close> of \<^verbatim>\<open>undefined\<close> and throws
  (\<open>None\<close>).\<close>

fun failedTokens :: "PushToken list \<Rightarrow> fcm_response list \<Rightarrow> nat list option" where
  "failedTokens tokens [] = Some []"
| "failedTokens [] (r # responses) =
     (if r = InvalidToken then None else failedTokens [] responses)"
| "failedTokens (t # tokens) (r # responses) =
     (case failedTokens tokens responses of
        None \<Rightarrow> None
      | Some ids \<Rightarrow> Some (if r = InvalidToken then token_id t # ids else ids))"

text \<open>\<^verbatim>\<open>sendToAll(title, body)\<close>. The token query is awaited outside the
  \<^verbatim>\<open>try\<close> block, so its rejection is the call's; what the block throws (the send,
  the collection and the deletion of refused tokens) is caught and logged.\<close>

definition sendToAll :: "environment \<Rightarrow> push \<Rightarrow> world \<Rightarrow> (error + unit) \<times> world" where
  "sendToAll env n w =
     (let w1 = initFirebase env w
      in if \<not> firebaseInitialized w1 then (Inr (), w1)
         else if tokenQueryRejects env then (Inl DatabaseError, w1)
         else
           (let tokens = pushTokens (db w1)
            in if tokens = [] then (Inr (), w1)
               else
                 (case sendEachForMulticast env (map token tokens) of
                    None \<Rightarrow> (Inr (), w1)
                  | Some responses \<Rightarrow>
                      (let w2 = w1\<lparr>pushes := pushes w1 @ [(n, map token tokens)]\<rparr>
                       in if list_ex (\<lambda>r. r \<noteq> Delivered) responses
                          then (case failedTokens tokens responses of
                                  None \<Rightarrow> (Inr (), w2)
                                | Some failed \<Rightarrow>
                                    if failed \<noteq> [] \<and> \<not> tokenDeleteRejects env
                                    then (Inr (),
                                          w2\<lparr>db := (db w2)\<lparr>pushTokens :=
                                                  filter (\<lambda>t. token_id t \<notin> set failed)
                                                    (pushTokens (db w2))\<rparr>\<rparr>)
                                    else (Inr (), w2))
                          else (Inr (), w2)))))"

text \<open>\<^verbatim>\<open>alertService.createAlert\<close>; alerts are never deleted, so the next
  auto-increment identifier is the number of rows plus one.\<close>

definition createAlert ::
  "nat \<Rightarrow> string \<Rightarrow> alert_level \<Rightarrow> alert_message \<Rightarrow> world \<Rightarrow> Alert \<times> world" where
  "createAlert now ty lv msg w =
     (let a = \<lparr>alert_id = Suc (length (alerts (db w))), alert_type = ty, level = lv,
                message = msg, createdAt = now\<rparr>;
          w1 = w\<lparr>db := (db w)\<lparr>alerts := alerts (db w) @ [a]\<rparr>\<rparr>
      in (a, if alertMqttPublish w1 then publish ''home/alert/new'' (AlertNew a) w1 else w1))"

text \<open>The \<^verbatim>\<open>server_error\<close> message of \<^verbatim>\<open>handleRfidAuth\<close>'s \<^verbatim>\<open>catch\<close>
  block.\<close>

definition publish_server_error :: "nat \<Rightarrow> json \<Rightarrow> world \<Rightarrow> world" where
  "publish_server_error now uidField w =
     publish ''door/rfid/result''
       (RfidResult (or_json uidField (JStr [])) False None (Some ''server_error'') now) w"

text \<open>\<^verbatim>\<open>handleRfidAuth(payload)\<close> with \<^verbatim>\<open>{ uidHash, uid } = payload\<close>. The
  \<^verbatim>\<open>try\<close> block takes the digest (\<^verbatim>\<open>uidHash || sha256(uid.toUpperCase())\<close>),
  authenticates (Prisma refuses a digest that is no string), publishes the result, writes
  the log entry and notifies; whatever it throws, at any of these steps, reaches the
  \<^verbatim>\<open>catch\<close> block.\<close>

definition handleRfidAuth ::
  "(string \<Rightarrow> string) \<Rightarrow> (string \<Rightarrow> string) \<Rightarrow> environment \<Rightarrow> nat \<Rightarrow> json \<Rightarrow> json \<Rightarrow> world
     \<Rightarrow> world" where
  "handleRfidAuth H toUpperCase env now uidHashField uidField w =
     (if falsy uidHashField \<and> falsy uidField
      then publish ''door/rfid/result''
             (RfidResult (or_json uidField (JStr [])) False None (Some ''invalid_request'')
                now) w
      else
        (let hash =
               (if truthy uidHashField then Inr uidHashField
                else (case uidField of
                        JStr u \<Rightarrow> Inr (JStr (H (toUpperCase u)))
                      | _ \<Rightarrow> Inl TypeError));
             outcome =
               (case hash of
                  Inl e \<Rightarrow> Inl e
                | Inr (JStr h) \<Rightarrow> authenticateRfid h (db w)
                | Inr _ \<Rightarrow> Inl ValidationError)
         in case outcome of
              Inl e \<Rightarrow> publish_server_error now uidField w
            | Inr result \<Rightarrow>
                (let w1 = publish ''door/rfid/result''
                            (RfidResult uidField (allowed result)
                               (Some (or_else (auth_username result) ''Unknown''))
                               (reason result) now) w
                 in case createAccessLog H toUpperCase env now
                           (if allowed result then ''access_granted'' else ''access_denied'')
                           (or_json uidField (JStr ''HASHED''))
                           (Some (or_else (reason result) ''rfid''))
                           (userId result) (db w1) of
                      (Inl e, s1) \<Rightarrow> publish_server_error now uidField (w1\<lparr>db := s1\<rparr>)
                    | (Inr entry, s1) \<Rightarrow>
                        (let w2 = w1\<lparr>db := s1\<rparr>
                         in if \<not> allowed result \<and> reason result \<noteq> Some ''unknown_card''
                            then (case sendToAll env
                                         (AccessDeniedPush
                                            (or_else (auth_username result) ''Unknown'')
                                            (reason result)) w2 of
                                    (Inl e, w3) \<Rightarrow> publish_server_error now uidField w3
                                  | (Inr done, w3) \<Rightarrow> w3)
                            else w2))))"


text \<open>What a published result says about the authentication (topic, decision, user name,
  reason) and what a log entry records beside the UID text: the parts that do not echo the
  UID as the device sent it. The view of a store and of the process state keeps everything
  else as it is.\<close>

definition result_view :: "string \<times> payload \<Rightarrow> string \<times> bool \<times> string option \<times> string option" where
  "result_view m = (fst m, allow (snd m), res_username (snd m), res_reason (snd m))"

definition log_view :: "DoorAccessLog \<Rightarrow> nat \<times> nat option \<times> string \<times> string option \<times> nat" where
  "log_view e = (log_doorId e, log_userId e, event e, log_method e, timestamp e)"

definition store_view ::
  "store \<Rightarrow> Door option \<times> (nat \<rightharpoonup> user) \<times> RfidCard list
     \<times> (nat \<times> nat option \<times> string \<times> string option \<times> nat) list \<times> Alert list
     \<times> PushToken list \<times> nat" where
  "store_view s =
     (door s, users s, rfidCards s, map log_view (doorAccessLogs s), alerts s, pushTokens s,
      nextCardId s)"

definition world_view ::
  "world \<Rightarrow> (Door option \<times> (nat \<rightharpoonup> user) \<times> RfidCard list
                \<times> (nat \<times> nat option \<times> string \<times> string option \<times> nat) list \<times> Alert list
                \<times> PushToken list \<times> nat)
     \<times> (string \<times> bool \<times> string option \<times> string option) list
     \<times> (push \<times> string list) list \<times> bool \<times> bool \<times> bool" where
  "world_view w =
     (store_view (db w), map result_view (outbox w), pushes w, mqttClient w,
      alertMqttPublish w, firebaseInitialized w)"

subsection \<open>The door router: PATCH /pin\<close>

text \<open>The regular expression \<^verbatim>\<open>/^\d+$/\<close>: one or more characters, each of
  \<open>0\<close> to \<open>9\<close>.\<close>

definition isDigit :: "char \<Rightarrow> bool" where
  "isDigit c = (48 \<le> (of_char c :: nat) \<and> (of_char c :: nat) \<le> 57)"

definition digits_only :: "string \<Rightarrow> bool" where
  "digits_only str = (str \<noteq> [] \<and> list_all isDigit str)"

text \<open>The specification's shape of a PIN: exactly 4 decimal digits.\<close>

definition four_digits :: "string option \<Rightarrow> bool" where
  "four_digits p =
     (case p of None \<Rightarrow> False
      | Some str \<Rightarrow> length str = 4 \<and> list_all (\<lambda>c. c \<in> set ''0123456789'') str)"

text \<open>The response bodies: the two validation messages, the message of a caught error,
  and the confirmation with the door's identifier.\<close>

datatype response_body =
    CurrentPinMustBeFourDigits
  | NewPinMustBeFourDigits
  | ErrorMessage error
  | PinUpdated nat

record response =
  status_code :: nat
  body :: response_body

text \<open>The handler after the \<^verbatim>\<open>authenticate\<close> and \<^verbatim>\<open>authorize('ADMIN')\<close>
  middleware, for the administrator \<open>admin\<close> (\<^verbatim>\<open>req.user.username\<close>) and the body
  fields \<open>pin\<close> and \<open>currentPin\<close>, each absent or a string. Its \<^verbatim>\<open>catch\<close> block
  answers 401 to the wrong-PIN error and 400 to any other, the notification's included.\<close>

definition patch_pin ::
  "(string \<Rightarrow> string) \<Rightarrow> environment \<Rightarrow> nat \<Rightarrow> string \<Rightarrow> string option \<Rightarrow> string option
     \<Rightarrow> world \<Rightarrow> response \<times> world" where
  "patch_pin H env now admin pin currentPin w =
     (case currentPin of
        None \<Rightarrow> (\<lparr>status_code = 400, body = CurrentPinMustBeFourDigits\<rparr>, w)
      | Some cur \<Rightarrow>
          if cur = [] \<or> length cur \<noteq> 4 \<or> \<not> digits_only cur
          then (\<lparr>status_code = 400, body = CurrentPinMustBeFourDigits\<rparr>, w)
          else
            (case pin of
               None \<Rightarrow> (\<lparr>status_code = 400, body = NewPinMustBeFourDigits\<rparr>, w)
             | Some newPin \<Rightarrow>
                 if newPin = [] \<or> length newPin \<noteq> 4 \<or> \<not> digits_only newPin
                 then (\<lparr>status_code = 400, body = NewPinMustBeFourDigits\<rparr>, w)
                 else
                   (case updateDoorPin H newPin cur (db w) of
                      (Inl e, s1) \<Rightarrow>
                        (if e = WrongCurrentPin
                         then \<lparr>status_code = 401, body = ErrorMessage e\<rparr>
                         else \<lparr>status_code = 400, body = ErrorMessage e\<rparr>,
                         w\<lparr>db := s1\<rparr>)
                    | (Inr d, s1) \<Rightarrow>
                        (let w1 = publish ''door/config/pin'' (ConfigPin (H newPin) now)
                                    (w\<lparr>db := s1\<rparr>);
                             (a, w2) = createAlert now ''door'' INFO (PinChangedBy admin) w1
                         in case sendToAll env (PinChangedPush admin) w2 of
                              (Inl e, w3) \<Rightarrow>
                                (if e = WrongCurrentPin
                                 then \<lparr>status_code = 401, body = ErrorMessage e\<rparr>
                                 else \<lparr>status_code = 400, body = ErrorMessage e\<rparr>,
                                 w3)
                            | (Inr done, w3) \<Rightarrow>
                                (\<lparr>status_code = 200, body = PinUpdated (door_id d)\<rparr>,
                                 w3)))))"

subsection \<open>Sample data\<close>

text \<open>A stand-in digest, the upper-case mapping of the ASCII letters, and a small store
  and environment, used only to evaluate the functions at concrete inputs; every general
  statement below holds for any digest function \<open>H\<close> and any function
  \<open>toUpperCase\<close>.\<close>

definition sample_digest :: "string \<Rightarrow> string" where
  "sample_digest str = ''sha256:'' @ str"

definition ascii_upper_char :: "char \<Rightarrow> char" where
  "ascii_upper_char c =
     (let n = (of_char c :: nat) in if 97 \<le> n \<and> n \<le> 122 then char_of (n - 32) else c)"

definition ascii_upper :: "string \<Rightarrow> string" where
  "ascii_upper str = map ascii_upper_char str"

text \<open>On ASCII text: two characters are the same letter when they are equal or one is
  the lower-case and the other the upper-case form of a letter.\<close>

definition same_letter :: "char \<Rightarrow> char \<Rightarrow> bool" where
  "same_letter a b =
     (a = b \<or> ((97 \<le> (of_char a :: nat) \<and> (of_char a :: nat) \<le> 122)
                 \<and> (of_char a :: nat) = (of_char b :: nat) + 32)
            \<or> ((97 \<le> (of_char b :: nat) \<and> (of_char b :: nat) \<le> 122)
                 \<and> (of_char b :: nat) = (of_char a :: nat) + 32))"

definition alice :: user where
  "alice = \<lparr>username = ''alice'', role = USER\<rparr>"

definition bob :: user where
  "bob = \<lparr>username = ''bob'', role = ADMIN\<rparr>"

definition sample_door :: Door where
  "sample_door = \<lparr>door_id = 7, pinHash = sample_digest ''1234'', enrollmentMode = True,
                   enrollmentUserId = Some 1\<rparr>"

definition bob_card :: RfidCard where
  "bob_card = \<lparr>card_id = 1, card_doorId = 7, card_userId = 2, uid = ''ABCD1234'',
                uidHash = sample_digest ''ABCD1234'', status = ACTIVE\<rparr>"

definition alice_old_card :: RfidCard where
  "alice_old_card = \<lparr>card_id = 2, card_doorId = 7, card_userId = 1, uid = ''0A0B0C0D'',
                      uidHash = sample_digest ''0A0B0C0D'', status = REVOKED\<rparr>"

definition sample_store :: store where
  "sample_store = \<lparr>door = Some sample_door, users = [1 \<mapsto> alice, 2 \<mapsto> bob],
                    rfidCards = [bob_card, alice_old_card], doorAccessLogs = [], alerts = [],
                    pushTokens = [\<lparr>token_id = 1, token = ''fcm-token-1''\<rparr>],
                    nextCardId = 3\<rparr>"

definition sample_world :: world where
  "sample_world = \<lparr>db = sample_store, outbox = [], pushes = [], mqttClient = True,
                    alertMqttPublish = True, firebaseInitialized = False\<rparr>"

definition all_delivered :: "string list \<Rightarrow> fcm_response list option" where
  "all_delivered tokens = Some (map (\<lambda>t. Delivered) tokens)"

definition sample_env :: environment where
  "sample_env = \<lparr>firebaseCredentials = True, logInsertRejects = False,
                  tokenQueryRejects = False, tokenDeleteRejects = False,
                  sendEachForMulticast = all_delivered\<rparr>"

section \<open>Properties\<close>

subsection \<open>The failed-attempt counter\<close>

lemma feed_snoc:
  "feed (outcomes @ [b]) this = snd (recordAttempt b (feed outcomes this))"
  by (induction outcomes arbitrary: this) simp_all

lemma feed_threshold: "alarmThreshold (feed outcomes this) = alarmThreshold this"
  by (induction outcomes arbitrary: this) (simp_all add: recordAttempt_def Let_def)

lemma feed_count:
  "count (feed outcomes new_FailedAttemptCounter) = consecutive_failures outcomes"
proof (induction outcomes rule: rev_induct)
  case Nil
  show ?case by (simp add: new_FailedAttemptCounter_def consecutive_failures_def)
next
  case (snoc b outcomes)
  then show ?case
    by (simp add: feed_snoc recordAttempt_def Let_def consecutive_failures_def)
qed

text \<open>
  C2. For every finite sequence of outcomes fed in order to a fresh counter, and after
  each of its steps (every prefix \<open>take n outcomes\<close>), the count is the number of
  consecutive failures since the last success, and the alarm is due exactly when that
  number is at least 5. A success after four failures leaves the alarm off; a fifth
  consecutive failure sets it.
\<close>

theorem counter_tracks_consecutive_failures:
  "count (feed (take n outcomes) new_FailedAttemptCounter)
     = consecutive_failures (take n outcomes)
   \<and> shouldTriggerAlarm (feed (take n outcomes) new_FailedAttemptCounter)
     = (5 \<le> consecutive_failures (take n outcomes))
   \<and> count (feed (outcomes @ [True]) new_FailedAttemptCounter) = 0
   \<and> \<not> shouldTriggerAlarm
         (feed [False, False, False, False, True] new_FailedAttemptCounter)
   \<and> shouldTriggerAlarm
         (feed [False, False, False, False, False] new_FailedAttemptCounter)"
proof -
  have thr: "alarmThreshold (feed xs new_FailedAttemptCounter) = 5" for xs
    by (simp add: feed_threshold new_FailedAttemptCounter_def)
  have al: "shouldTriggerAlarm (feed xs new_FailedAttemptCounter)
              = (5 \<le> consecutive_failures xs)" for xs
    by (simp add: shouldTriggerAlarm_def thr feed_count)
  have z: "consecutive_failures (outcomes @ [True]) = 0"
    by (simp add: consecutive_failures_def)
  have four: "consecutive_failures [False, False, False, False, True] = 0"
    by (simp add: consecutive_failures_def)
  have five: "consecutive_failures [False, False, False, False, False] = 5"
    by (simp add: consecutive_failures_def)
  show ?thesis
    unfolding al feed_count z four five by simp
qed

subsection \<open>PIN authentication and the RFID-scan flag\<close>

text \<open>
  C7. The result of PIN authentication is the same, field by field, whether the
  prior-RFID-scan flag is set or not: it depends on the candidate PIN and the stored
  digest only.
\<close>

theorem pin_auth_ignores_rfid_flag:
  "simulatePinAuth H p stored True = simulatePinAuth H p stored False
   \<and> success (simulatePinAuth H p stored True) = success (simulatePinAuth H p stored False)
   \<and> shouldUnlock (simulatePinAuth H p stored True)
       = shouldUnlock (simulatePinAuth H p stored False)
   \<and> pin_method (simulatePinAuth H p stored True)
       = pin_method (simulatePinAuth H p stored False)
   \<and> simulatePinAuth H p stored rfidValidated
       = \<lparr>success = (H p = stored), shouldUnlock = (H p = stored),
          pin_method = (if H p = stored then ''pin'' else ''invalid_pin'')\<rparr>"
  by (simp add: simulatePinAuth_def Let_def)

subsection \<open>RFID authentication\<close>

text \<open>
  C1. For every digest \<open>h\<close>: when no card carries \<open>h\<close> the result is a denial with
  reason \<open>unknown_card\<close>; when the card found for \<open>h\<close> is REVOKED it is a denial with
  reason \<open>card_revoked\<close> and the holder's identifier and name; when it is ACTIVE it is
  a grant with the holder's identifier, name and role. The result does not read the door
  row, which is where the PIN digest lives.
\<close>

theorem authenticateRfid_outcomes:
  "((\<forall>c \<in> set (rfidCards s). uidHash c \<noteq> h) \<longrightarrow>
      authenticateRfid h s =
        Inr \<lparr>allowed = False, reason = Some ''unknown_card'', userId = None,
             auth_username = None, auth_role = None\<rparr>)
   \<and> (find (\<lambda>c. uidHash c = h) (rfidCards s) = Some found
        \<and> users s (card_userId found) = Some holder \<and> status found = REVOKED \<longrightarrow>
      authenticateRfid h s =
        Inr \<lparr>allowed = False, reason = Some ''card_revoked'',
             userId = Some (card_userId found), auth_username = Some (username holder),
             auth_role = None\<rparr>)
   \<and> (find (\<lambda>c. uidHash c = h) (rfidCards s) = Some found
        \<and> users s (card_userId found) = Some holder \<and> status found = ACTIVE \<longrightarrow>
      authenticateRfid h s =
        Inr \<lparr>allowed = True, reason = None,
             userId = Some (card_userId found), auth_username = Some (username holder),
             auth_role = Some (role holder)\<rparr>)
   \<and> authenticateRfid h (s\<lparr>door := d\<rparr>) = authenticateRfid h s"
proof -
  have none: "(\<forall>c \<in> set (rfidCards s). uidHash c \<noteq> h) \<Longrightarrow>
      find (\<lambda>c. uidHash c = h) (rfidCards s) = None"
    by (simp add: find_None_iff)
  have indep: "authenticateRfid h (s\<lparr>door := d\<rparr>) = authenticateRfid h s"
    by (simp add: authenticateRfid_def split: option.splits)
  show ?thesis
    unfolding indep using none by (auto simp add: authenticateRfid_def)
qed

theorem authenticateRfid_outcomes_witness:
  "authenticateRfid (sample_digest ''ABCD1234'') sample_store =
        Inr \<lparr>allowed = True, reason = None,
             userId = Some 2, auth_username = Some ''bob'',
             auth_role = Some ADMIN\<rparr>
  \<and> authenticateRfid (sample_digest ''0A0B0C0D'') sample_store =
        Inr \<lparr>allowed = False, reason = Some ''card_revoked'',
             userId = Some 1, auth_username = Some ''alice'',
             auth_role = None\<rparr>
  \<and> authenticateRfid (sample_digest ''FFFF'') sample_store =
        Inr \<lparr>allowed = False, reason = Some ''unknown_card'', userId = None,
             auth_username = None, auth_role = None\<rparr>"
proof -
  have a: "find (\<lambda>c. uidHash c = sample_digest ''ABCD1234'') (rfidCards sample_store)
             = Some bob_card"
    by (simp add: sample_store_def bob_card_def alice_old_card_def sample_digest_def)
  have b: "users sample_store (card_userId bob_card) = Some bob" "status bob_card = ACTIVE"
    by (simp_all add: sample_store_def bob_card_def)
  have c: "find (\<lambda>c. uidHash c = sample_digest ''0A0B0C0D'') (rfidCards sample_store)
             = Some alice_old_card"
    by (simp add: sample_store_def bob_card_def alice_old_card_def sample_digest_def)
  have d: "users sample_store (card_userId alice_old_card) = Some alice"
    "status alice_old_card = REVOKED"
    by (simp_all add: sample_store_def alice_old_card_def)
  have e: "\<forall>c \<in> set (rfidCards sample_store). uidHash c \<noteq> sample_digest ''FFFF''"
    by (simp add: sample_store_def bob_card_def alice_old_card_def sample_digest_def)
  show ?thesis
    using authenticateRfid_outcomes [of sample_store "sample_digest ''ABCD1234''" bob_card bob]
      authenticateRfid_outcomes
        [of sample_store "sample_digest ''0A0B0C0D''" alice_old_card alice]
      authenticateRfid_outcomes [of sample_store "sample_digest ''FFFF''"]
      a b c d e
    by (simp add: bob_card_def alice_old_card_def alice_def bob_def)
qed

subsection \<open>The card invariant\<close>

lemma active_cards_filter: "active_cards (filter P cards) = filter P (active_cards cards)"
  by (induction cards) (simp_all add: active_cards_def)

lemma card_invariant_filter: "card_invariant cards \<Longrightarrow> card_invariant (filter P cards)"
  by (simp add: card_invariant_def active_cards_filter distinct_map_filter)

lemma active_cards_revoke:
  "active_cards (map (\<lambda>c. if card_id c = i then c\<lparr>status := REVOKED\<rparr> else c) cards)
     = filter (\<lambda>c. card_id c \<noteq> i) (active_cards cards)"
  by (induction cards) (simp_all add: active_cards_def)

lemma card_invariant_revoke:
  "card_invariant cards \<Longrightarrow>
   card_invariant (map (\<lambda>c. if card_id c = i then c\<lparr>status := REVOKED\<rparr> else c) cards)"
  by (simp add: card_invariant_def active_cards_revoke distinct_map_filter)

lemma card_invariant_append:
  assumes "card_invariant cards" and "status n = ACTIVE"
    and "\<forall>c \<in> set cards. status c = ACTIVE \<longrightarrow> card_userId c \<noteq> card_userId n"
    and "\<forall>c \<in> set cards. status c = ACTIVE \<longrightarrow> uidHash c \<noteq> uidHash n"
  shows "card_invariant (cards @ [n])"
  using assms by (auto simp add: card_invariant_def active_cards_def)

lemma getOrCreateDoor_cards: "rfidCards (snd (getOrCreateDoor H pin s)) = rfidCards s"
  by (simp add: getOrCreateDoor_def Let_def split: option.splits)

lemma revoke_by_id_invariant:
  "card_invariant (rfidCards s) \<Longrightarrow> card_invariant (rfidCards (snd (revoke_by_id i s)))"
  by (simp add: revoke_by_id_def card_invariant_revoke split: option.splits)

lemma revokeUserCard_invariant:
  "card_invariant (rfidCards s) \<Longrightarrow> card_invariant (rfidCards (snd (revokeUserCard A s)))"
  by (simp add: revokeUserCard_def revoke_by_id_invariant split: option.splits)

lemma removeRfidCard_invariant:
  "card_invariant (rfidCards s) \<Longrightarrow> card_invariant (rfidCards (snd (removeRfidCard i s)))"
  by (simp add: removeRfidCard_def revoke_by_id_invariant)

lemma addRfidCard_invariant:
  assumes "card_invariant (rfidCards s)"
  shows "card_invariant (rfidCards (snd (addRfidCard H toUpperCase A entered s)))"
proof -
  obtain d s1 where g: "getOrCreateDoor H ''1234'' s = (d, s1)" by force
  have c1: "rfidCards s1 = rfidCards s"
    using getOrCreateDoor_cards [of H "''1234''" s] g by simp
  show ?thesis
  proof (cases "find (\<lambda>c. card_userId c = A \<and> status c = ACTIVE) (rfidCards s)")
    case (Some a)
    then show ?thesis using assms g c1 by (simp add: addRfidCard_def)
  next
    case None
    note n1 = None
    show ?thesis
    proof (cases "find (\<lambda>c. uidHash c = H (toUpperCase entered) \<and> status c = ACTIVE)
                    (rfidCards s)")
      case (Some a)
      then show ?thesis using assms g c1 n1 by (simp add: addRfidCard_def Let_def)
    next
      case None
      have "card_invariant (rfidCards s @
              [\<lparr>card_id = nextCardId s1, card_doorId = door_id d, card_userId = A,
                uid = toUpperCase entered, uidHash = H (toUpperCase entered),
                status = ACTIVE\<rparr>])"
        using assms n1 None
        by (intro card_invariant_append) (auto simp add: find_None_iff)
      then show ?thesis
        using g c1 n1 None by (simp add: addRfidCard_def Let_def create_card_def)
    qed
  qed
qed

lemma enroll_cards_invariant:
  assumes "card_invariant cards"
  shows "card_invariant
           (filter (\<lambda>c. card_userId c \<noteq> A)
              (filter (\<lambda>c. \<not> (uidHash c = h \<and> card_userId c \<noteq> A)) cards)
            @ [\<lparr>card_id = i, card_doorId = dd, card_userId = A, uid = uu, uidHash = h,
                 status = ACTIVE\<rparr>])"
  using assms
  by (intro card_invariant_append card_invariant_filter) auto

lemma processEnrollmentScan_invariant:
  assumes "card_invariant (rfidCards s)"
  shows "card_invariant (rfidCards (snd (processEnrollmentScan H toUpperCase now scanned s)))"
  using assms enroll_cards_invariant [OF assms]
  by (auto simp add: processEnrollmentScan_def Let_def exit_enrollment_def create_card_def
        split: option.splits)

text \<open>
  C6. Each of the four operations that change cards keeps the invariant of the card table:
  from a store in which no two ACTIVE cards share a user or a UID digest, the store it
  leaves (whether it returns or throws) has no two ACTIVE cards sharing a user or a digest.
\<close>

theorem card_operations_preserve_invariant:
  assumes "card_invariant (rfidCards s)"
  shows "card_invariant (rfidCards (snd (processEnrollmentScan H toUpperCase now scanned s)))
       \<and> card_invariant (rfidCards (snd (addRfidCard H toUpperCase A entered s)))
       \<and> card_invariant (rfidCards (snd (revokeUserCard A s)))
       \<and> card_invariant (rfidCards (snd (removeRfidCard cardId s)))"
  using assms
  by (simp add: processEnrollmentScan_invariant addRfidCard_invariant
        revokeUserCard_invariant removeRfidCard_invariant)

theorem card_operations_preserve_invariant_witness:
  "card_invariant (rfidCards sample_store)
   \<and> card_invariant (rfidCards (snd (processEnrollmentScan sample_digest ascii_upper 5 ''0a0b0c0d''
                                        sample_store)))
   \<and> card_invariant (rfidCards (snd (addRfidCard sample_digest ascii_upper 1 ''beef'' sample_store)))
   \<and> card_invariant (rfidCards (snd (revokeUserCard 2 sample_store)))
   \<and> card_invariant (rfidCards (snd (removeRfidCard 1 sample_store)))"
proof -
  have h: "card_invariant (rfidCards sample_store)"
    by (simp add: card_invariant_def active_cards_def sample_store_def bob_card_def
          alice_old_card_def)
  show ?thesis
    using h card_operations_preserve_invariant
            [OF h, of sample_digest ascii_upper 5 "''0a0b0c0d''" 1 "''beef''" 1]
      card_operations_preserve_invariant [OF h, of sample_digest ascii_upper 5 "''0a0b0c0d''" 2 "''beef''" 1]
    by simp
qed

subsection \<open>Enrollment scans\<close>

lemma upper_abcd1234: "ascii_upper ''abcd1234'' = ''ABCD1234''"
  by code_simp

lemma upper_0a0b0c0d: "ascii_upper ''0a0b0c0d'' = ''0A0B0C0D''"
  by code_simp

text \<open>
  C4. The door is enrolling for user \<open>A\<close>; another user \<open>B\<close> holds an ACTIVE card with
  the digest of the scanned UID in upper case, and is the only other user who does. Then
  the scan fails with the message naming \<open>B\<close>, the door leaves enrollment mode (flag
  off, no target user), and nothing else in the store changes: the card table is the
  same, \<open>B\<close>'s card included.
\<close>

theorem enrollment_scan_conflict:
  assumes enrolling: "door s = Some d" "enrollmentMode d" "enrollmentUserId d = Some A" "A \<noteq> 0"
    and held: "c \<in> set (rfidCards s)" "status c = ACTIVE"
              "uidHash c = H (toUpperCase scanned)" "card_userId c = B" "B \<noteq> A"
    and holder: "users s B = Some holder"
    and only: "\<forall>c' \<in> set (rfidCards s).
                 status c' = ACTIVE \<and> uidHash c' = H (toUpperCase scanned) \<and> card_userId c' \<noteq> A
                   \<longrightarrow> card_userId c' = B"
  shows "processEnrollmentScan H toUpperCase now scanned s =
           (Inr (ScanFailure (CardAssignedTo (username holder))),
            s\<lparr>door := Some (d\<lparr>enrollmentMode := False, enrollmentUserId := None\<rparr>)\<rparr>)
         \<and> rfidCards (snd (processEnrollmentScan H toUpperCase now scanned s)) = rfidCards s
         \<and> c \<in> set (rfidCards (snd (processEnrollmentScan H toUpperCase now scanned s)))"
proof -
  let ?P = "\<lambda>c. uidHash c = H (toUpperCase scanned) \<and> status c = ACTIVE \<and> card_userId c \<noteq> A"
  have "\<exists>x. x \<in> set (rfidCards s) \<and> ?P x" using held by blast
  then obtain c' where f: "find ?P (rfidCards s) = Some c'"
    by (cases "find ?P (rfidCards s)") (auto simp add: find_None_iff)
  then have "c' \<in> set (rfidCards s)" "?P c'"
    by (auto simp add: find_Some_iff)
  then have b: "card_userId c' = B" using only by blast
  have main: "processEnrollmentScan H toUpperCase now scanned s =
           (Inr (ScanFailure (CardAssignedTo (username holder))),
            s\<lparr>door := Some (d\<lparr>enrollmentMode := False, enrollmentUserId := None\<rparr>)\<rparr>)"
    using enrolling f b holder
    by (simp add: processEnrollmentScan_def falsy_id_def Let_def exit_enrollment_def)
  show ?thesis unfolding main using held(1) by simp
qed

theorem enrollment_scan_conflict_witness:
  "processEnrollmentScan sample_digest ascii_upper 5 ''abcd1234'' sample_store =
     (Inr (ScanFailure (CardAssignedTo ''bob'')),
      sample_store\<lparr>door := Some (sample_door\<lparr>enrollmentMode := False,
                                               enrollmentUserId := None\<rparr>)\<rparr>)
   \<and> rfidCards (snd (processEnrollmentScan sample_digest ascii_upper 5 ''abcd1234'' sample_store))
       = [bob_card, alice_old_card]"
proof -
  have e: "door sample_store = Some sample_door" "enrollmentMode sample_door"
    "enrollmentUserId sample_door = Some 1" "(1::nat) \<noteq> 0"
    by (simp_all add: sample_store_def sample_door_def)
  have c: "bob_card \<in> set (rfidCards sample_store)" "status bob_card = ACTIVE"
    "uidHash bob_card = sample_digest (ascii_upper ''abcd1234'')" "card_userId bob_card = 2"
    "(2::nat) \<noteq> 1"
    by (simp_all add: sample_store_def bob_card_def upper_abcd1234)
  have u: "users sample_store 2 = Some bob"
    by (simp add: sample_store_def)
  have only: "\<forall>c' \<in> set (rfidCards sample_store).
                 status c' = ACTIVE \<and> uidHash c' = sample_digest (ascii_upper ''abcd1234'')
                   \<and> card_userId c' \<noteq> 1 \<longrightarrow> card_userId c' = 2"
    by (simp add: sample_store_def bob_card_def alice_old_card_def)
  show ?thesis
    using enrollment_scan_conflict [where s = sample_store and d = sample_door and A = 1
        and c = bob_card and H = sample_digest and toUpperCase = ascii_upper and scanned = "''abcd1234''" and B = 2
        and holder = bob and now = 5, OF e c u only]
    by (simp add: bob_def) (simp add: sample_store_def)
qed

text \<open>
  C5. The door is enrolling for the existing user \<open>A\<close> and no other user holds an
  ACTIVE card with the digest of the scanned UID. Then the scan succeeds: every card with
  that digest (the other users' are REVOKED ones) and every card of \<open>A\<close> is deleted,
  all other cards stay, one new ACTIVE card of \<open>A\<close> with the upper-case UID and its
  digest is appended, one log entry tagged \<open>enrollment_success\<close> is written, and the
  door leaves enrollment mode.
\<close>

theorem enrollment_scan_succeeds:
  assumes enrolling: "door s = Some d" "enrollmentMode d" "enrollmentUserId d = Some A" "A \<noteq> 0"
    and owner: "users s A = Some owner"
    and free: "\<forall>c \<in> set (rfidCards s).
                 \<not> (status c = ACTIVE \<and> uidHash c = H (toUpperCase scanned) \<and> card_userId c \<noteq> A)"
  shows "processEnrollmentScan H toUpperCase now scanned s =
           (Inr (ScanSuccess
                  \<lparr>card_id = nextCardId s, card_doorId = door_id d, card_userId = A,
                    uid = toUpperCase scanned, uidHash = H (toUpperCase scanned),
                    status = ACTIVE\<rparr>
                  (CardEnrolledFor (username owner))),
            s\<lparr>rfidCards :=
                 filter (\<lambda>c. uidHash c \<noteq> H (toUpperCase scanned) \<and> card_userId c \<noteq> A)
                   (rfidCards s)
                 @ [\<lparr>card_id = nextCardId s, card_doorId = door_id d, card_userId = A,
                      uid = toUpperCase scanned, uidHash = H (toUpperCase scanned),
                      status = ACTIVE\<rparr>],
               nextCardId := Suc (nextCardId s),
               door := Some (d\<lparr>enrollmentMode := False, enrollmentUserId := None\<rparr>),
               doorAccessLogs := doorAccessLogs s
                 @ [\<lparr>log_doorId = door_id d, log_userId = Some A,
                      event = ''enrollment_success'', rfidUid = Some (toUpperCase scanned),
                      log_method = Some ''enrollment'', timestamp = now\<rparr>]\<rparr>)"
proof -
  let ?h = "H (toUpperCase scanned)"
  let ?P = "\<lambda>c. uidHash c = ?h \<and> status c = ACTIVE \<and> card_userId c \<noteq> A"
  have f: "find ?P (rfidCards s) = None"
    using free by (auto simp add: find_None_iff)
  have flt: "filter (\<lambda>c. (uidHash c = ?h \<longrightarrow> card_userId c = A) \<and> card_userId c \<noteq> A) cards
             = filter (\<lambda>c. uidHash c \<noteq> ?h \<and> card_userId c \<noteq> A) cards" for cards
    by (rule filter_cong) auto
  show ?thesis
    using enrolling f owner
    by (simp add: processEnrollmentScan_def falsy_id_def Let_def exit_enrollment_def
          create_card_def flt)
qed

theorem enrollment_scan_succeeds_witness:
  "processEnrollmentScan sample_digest ascii_upper 5 ''0a0b0c0d'' sample_store =
     (Inr (ScanSuccess
             \<lparr>card_id = 3, card_doorId = 7, card_userId = 1, uid = ''0A0B0C0D'',
               uidHash = sample_digest ''0A0B0C0D'', status = ACTIVE\<rparr>
             (CardEnrolledFor ''alice'')),
      sample_store\<lparr>rfidCards :=
                     [bob_card,
                      \<lparr>card_id = 3, card_doorId = 7, card_userId = 1, uid = ''0A0B0C0D'',
                        uidHash = sample_digest ''0A0B0C0D'', status = ACTIVE\<rparr>],
                   nextCardId := 4,
                   door := Some (sample_door\<lparr>enrollmentMode := False,
                                              enrollmentUserId := None\<rparr>),
                   doorAccessLogs :=
                     [\<lparr>log_doorId = 7, log_userId = Some 1, event = ''enrollment_success'',
                       rfidUid = Some ''0A0B0C0D'', log_method = Some ''enrollment'',
                       timestamp = 5\<rparr>]\<rparr>)"
proof -
  have e: "door sample_store = Some sample_door" "enrollmentMode sample_door"
    "enrollmentUserId sample_door = Some 1" "(1::nat) \<noteq> 0"
    by (simp_all add: sample_store_def sample_door_def)
  have u: "users sample_store 1 = Some alice"
    by (simp add: sample_store_def)
  have free: "\<forall>c \<in> set (rfidCards sample_store).
                \<not> (status c = ACTIVE \<and> uidHash c = sample_digest (ascii_upper ''0a0b0c0d'')
                    \<and> card_userId c \<noteq> 1)"
    by (simp add: sample_store_def bob_card_def alice_old_card_def upper_0a0b0c0d
          sample_digest_def)
  show ?thesis
    using enrollment_scan_succeeds [where s = sample_store and d = sample_door and A = 1
        and H = sample_digest and toUpperCase = ascii_upper and scanned = "''0a0b0c0d''" and owner = alice and now = 5,
        OF e u free]
    by (simp add: upper_0a0b0c0d alice_def sample_store_def sample_door_def bob_card_def
          alice_old_card_def sample_digest_def)
qed

subsection \<open>The RFID authentication handler\<close>

lemma getOrCreateDoor_alerts: "alerts (snd (getOrCreateDoor H pin s)) = alerts s"
  by (simp add: getOrCreateDoor_def Let_def split: option.splits)

lemma getOrCreateDoor_logs: "doorAccessLogs (snd (getOrCreateDoor H pin s)) = doorAccessLogs s"
  by (simp add: getOrCreateDoor_def Let_def split: option.splits)

lemma getOrCreateDoor_door:
  "door (snd (getOrCreateDoor H pin s)) = Some (fst (getOrCreateDoor H pin s))"
  by (simp add: getOrCreateDoor_def Let_def split: option.splits)


lemma sendToAll_outbox: "outbox (snd (sendToAll env n w)) = outbox w"
  by (simp add: sendToAll_def initFirebase_def Let_def split: option.splits)

lemma sendToAll_client: "mqttClient (snd (sendToAll env n w)) = mqttClient w"
  by (simp add: sendToAll_def initFirebase_def Let_def split: option.splits)

lemma sendToAll_store:
  "(db (snd (sendToAll env n w)))\<lparr>pushTokens := ts\<rparr> = (db w)\<lparr>pushTokens := ts\<rparr>"
  by (simp add: sendToAll_def initFirebase_def Let_def split: option.splits)

lemma sendToAll_door: "door (db (snd (sendToAll env n w))) = door (db w)"
  by (simp add: sendToAll_def initFirebase_def Let_def split: option.splits)




lemma sendToAll_rejects:
  "fst (sendToAll env n w) =
     (if (firebaseInitialized w \<or> firebaseCredentials env) \<and> tokenQueryRejects env
      then Inl DatabaseError else Inr ())"
  by (simp add: sendToAll_def initFirebase_def Let_def split: option.splits)

lemma sendToAll_case:
  "(case sendToAll env n w of (Inl e, w3) \<Rightarrow> f e w3 | (Inr done, w3) \<Rightarrow> g w3) =
     (if (firebaseInitialized w \<or> firebaseCredentials env) \<and> tokenQueryRejects env
      then f DatabaseError (snd (sendToAll env n w))
      else g (snd (sendToAll env n w)))"
proof (cases "sendToAll env n w")
  case (Pair res w3)
  with sendToAll_rejects [of env n w] show ?thesis
    by (cases res) (auto split: if_splits)
qed




text \<open>
  C10. When the payload carries neither \<open>uidHash\<close> nor \<open>uid\<close> (absent, or a value
  that counts as false), the handler publishes exactly one \<open>door/rfid/result\<close> message
  with \<open>allow\<close> false and reason \<open>invalid_request\<close>, and nothing else changes: no
  log entry, no change to the cards or the door, no notification.
\<close>

theorem rfid_auth_invalid_request:
  assumes "mqttClient w" and "falsy uidHashField" and "falsy uidField"
  shows "handleRfidAuth H toUpperCase env now uidHashField uidField w =
           w\<lparr>outbox := outbox w @
               [(''door/rfid/result'',
                 RfidResult (JStr []) False None (Some ''invalid_request'') now)]\<rparr>
       \<and> db (handleRfidAuth H toUpperCase env now uidHashField uidField w) = db w
       \<and> pushes (handleRfidAuth H toUpperCase env now uidHashField uidField w) = pushes w"
  using assms
  by (simp add: handleRfidAuth_def publish_def falsy_def or_json_def)

theorem rfid_auth_invalid_request_witness:
  "handleRfidAuth sample_digest ascii_upper sample_env 9 JUndefined JUndefined sample_world =
     sample_world\<lparr>outbox :=
       [(''door/rfid/result'', RfidResult (JStr []) False None (Some ''invalid_request'') 9)]\<rparr>
   \<and> db (handleRfidAuth sample_digest ascii_upper sample_env 9 JUndefined JUndefined
           sample_world) = sample_store"
proof -
  have a: "mqttClient sample_world"
    by (simp add: sample_world_def)
  have b: "falsy JUndefined"
    by (simp add: falsy_def)
  show ?thesis
    using rfid_auth_invalid_request [where H = sample_digest and toUpperCase = ascii_upper
        and env = sample_env and now = 9, OF a b b]
    by (simp add: sample_world_def)
qed

subsection \<open>Letter case of UIDs\<close>

lemma same_letter_upper: "same_letter a b \<Longrightarrow> ascii_upper_char a = ascii_upper_char b"
  unfolding same_letter_def ascii_upper_char_def Let_def
  by (auto simp add: char_of_char)

lemma ascii_equal_up_to_case:
  "list_all2 same_letter u v \<Longrightarrow> equal_up_to_case ascii_upper u v"
  unfolding equal_up_to_case_def ascii_upper_def
  by (induction u v rule: list_all2_induct) (simp_all add: same_letter_upper)

lemma getOrCreateDoor_users: "users (snd (getOrCreateDoor H pin s)) = users s"
  by (simp add: getOrCreateDoor_def Let_def split: option.splits)

lemma getUserByRfidHash_door:
  "getUserByRfidHash h (snd (getOrCreateDoor H pin s)) = getUserByRfidHash h s"
  unfolding getUserByRfidHash_def getOrCreateDoor_users getOrCreateDoor_cards ..

lemma createAccessLog_JStr:
  "createAccessLog H toUpperCase env now ev (JStr r) meth given s =
     (if logInsertRejects env then (Inl DatabaseError, snd (getOrCreateDoor H ''1234'' s))
      else
        (Inr \<lparr>log_doorId = door_id (fst (getOrCreateDoor H ''1234'' s)),
              log_userId =
                (if falsy_id given \<and> r \<noteq> []
                 then (case getUserByRfidHash (H (toUpperCase r)) s of
                         None \<Rightarrow> None
                       | Some (i, holder) \<Rightarrow> if i = 0 then None else Some i)
                 else given),
              event = ev, rfidUid = Some r, log_method = meth, timestamp = now\<rparr>,
         (snd (getOrCreateDoor H ''1234'' s))
           \<lparr>doorAccessLogs := doorAccessLogs s @
              [\<lparr>log_doorId = door_id (fst (getOrCreateDoor H ''1234'' s)),
                log_userId =
                  (if falsy_id given \<and> r \<noteq> []
                   then (case getUserByRfidHash (H (toUpperCase r)) s of
                           None \<Rightarrow> None
                         | Some (i, holder) \<Rightarrow> if i = 0 then None else Some i)
                   else given),
                event = ev, rfidUid = Some r, log_method = meth, timestamp = now\<rparr>]\<rparr>))"
  by (simp add: createAccessLog_def resolve_log_user_def rfidUid_column_def
       case_prod_beta getOrCreateDoor_logs getUserByRfidHash_door Let_def)

lemma createAccessLog_case:
  assumes "equal_up_to_case toUpperCase u v"
  shows "map_sum id log_view (fst (createAccessLog H toUpperCase env now ev (JStr u) meth given s))
           = map_sum id log_view
               (fst (createAccessLog H toUpperCase env now ev (JStr v) meth given s))
       \<and> store_view (snd (createAccessLog H toUpperCase env now ev (JStr u) meth given s))
           = store_view (snd (createAccessLog H toUpperCase env now ev (JStr v) meth given s))"
  using assms
  by (simp add: createAccessLog_JStr equal_up_to_case_def log_view_def store_view_def)

lemma sendToAll_view:
  assumes "world_view w = world_view w'"
  shows "fst (sendToAll env n w) = fst (sendToAll env n w')
       \<and> world_view (snd (sendToAll env n w)) = world_view (snd (sendToAll env n w'))"
  using assms
  by (simp add: sendToAll_def initFirebase_def world_view_def store_view_def Let_def
        split: option.splits)

lemma db_publish: "db (publish topic m w) = db w"
  by (simp add: publish_def)

lemma publish_result_view:
  assumes "world_view w = world_view w'"
  shows "world_view (publish topic (RfidResult a d n r t) w)
           = world_view (publish topic (RfidResult a' d n r t) w')"
  using assms by (simp add: publish_def world_view_def result_view_def)

lemma publish_server_error_view:
  assumes "world_view w = world_view w'"
  shows "world_view (publish_server_error now a w) = world_view (publish_server_error now a' w')"
  unfolding publish_server_error_def by (rule publish_result_view [OF assms])

lemma world_view_db:
  assumes "world_view w = world_view w'" and "store_view s = store_view s'"
  shows "world_view (w\<lparr>db := s\<rparr>) = world_view (w'\<lparr>db := s'\<rparr>)"
  using assms by (simp add: world_view_def)

lemma sendToAll_case_view:
  assumes "world_view w = world_view w'"
  shows "world_view (case sendToAll env n w of
                       (Inl e, w3) \<Rightarrow> publish_server_error now a w3
                     | (Inr done, w3) \<Rightarrow> w3)
       = world_view (case sendToAll env n w' of
                       (Inl e, w3) \<Rightarrow> publish_server_error now a' w3
                     | (Inr done, w3) \<Rightarrow> w3)"
proof -
  have fi: "firebaseInitialized w = firebaseInitialized w'"
    using assms by (simp add: world_view_def)
  show ?thesis
    unfolding sendToAll_case fi
    using sendToAll_view [OF assms, of env n]
    by (simp add: publish_server_error_view)
qed

lemma createAccessLog_case_view:
  assumes "equal_up_to_case toUpperCase u v" and "world_view w = world_view w'"
  shows "world_view
           (case createAccessLog H toUpperCase env now ev (JStr u) meth given s of
              (Inl e, s1) \<Rightarrow> publish_server_error now a (w\<lparr>db := s1\<rparr>)
            | (Inr entry, s1) \<Rightarrow>
                if c
                then (case sendToAll env n (w\<lparr>db := s1\<rparr>) of
                        (Inl e, w3) \<Rightarrow> publish_server_error now a w3
                      | (Inr done, w3) \<Rightarrow> w3)
                else w\<lparr>db := s1\<rparr>)
       = world_view
           (case createAccessLog H toUpperCase env now ev (JStr v) meth given s of
              (Inl e, s1) \<Rightarrow> publish_server_error now a' (w'\<lparr>db := s1\<rparr>)
            | (Inr entry, s1) \<Rightarrow>
                if c
                then (case sendToAll env n (w'\<lparr>db := s1\<rparr>) of
                        (Inl e, w3) \<Rightarrow> publish_server_error now a' w3
                      | (Inr done, w3) \<Rightarrow> w3)
                else w'\<lparr>db := s1\<rparr>)"
proof -
  have sv: "store_view (snd (createAccessLog H toUpperCase env now ev (JStr u) meth given s))
          = store_view (snd (createAccessLog H toUpperCase env now ev (JStr v) meth given s))"
    using createAccessLog_case [OF assms(1)] by blast
  note wv = world_view_db [OF assms(2) sv]
  show ?thesis
  proof (cases "logInsertRejects env")
    case True
    have "world_view (publish_server_error now a
                        (w\<lparr>db := snd (getOrCreateDoor H ''1234'' s)\<rparr>))
        = world_view (publish_server_error now a'
                        (w'\<lparr>db := snd (getOrCreateDoor H ''1234'' s)\<rparr>))"
      by (intro publish_server_error_view world_view_db assms(2) refl)
    with True show ?thesis
      by (simp add: createAccessLog_JStr)
  next
    case False
    note ins = False
    show ?thesis
    proof (cases c)
      case True
      show ?thesis
        using sendToAll_case_view [OF wv, where env = env and n = n and now = now and a = a
            and a' = a'] ins True
        by (simp add: createAccessLog_JStr Let_def)
    next
      case False
      show ?thesis
        using wv ins False
        by (simp add: createAccessLog_JStr Let_def)
    qed
  qed
qed

lemma handleRfidAuth_case:
  assumes "equal_up_to_case toUpperCase u v"
  shows "world_view (handleRfidAuth H toUpperCase env now uidHashField (JStr u) w)
           = world_view (handleRfidAuth H toUpperCase env now uidHashField (JStr v) w)"
proof (cases "u = []")
  case True
  with assms have "v = []" by (simp add: equal_up_to_case_def)
  with True show ?thesis by simp
next
  case False
  with assms have nv: "v \<noteq> []" and up: "toUpperCase u = toUpperCase v"
    by (simp_all add: equal_up_to_case_def)
  have oju: "or_json (JStr u) d = JStr u" and ojv: "or_json (JStr v) d = JStr v" for d
    using False nv by (simp_all add: or_json_def)
  have guard: "\<not> (falsy uidHashField \<and> falsy (JStr u))"
    "\<not> (falsy uidHashField \<and> falsy (JStr v))"
    using False nv by (simp_all add: falsy_def)
  let ?hash = "if truthy uidHashField then Inr uidHashField
               else (Inr (JStr (H (toUpperCase v))) :: error + json)"
  let ?out = "case ?hash of
                Inl e \<Rightarrow> Inl e
              | Inr (JStr h) \<Rightarrow> authenticateRfid h (db w)
              | Inr _ \<Rightarrow> Inl ValidationError"
  have hash_u: "(if truthy uidHashField then Inr uidHashField
                 else (case JStr u of
                         JStr x \<Rightarrow> Inr (JStr (H (toUpperCase x)))
                       | _ \<Rightarrow> Inl TypeError)) = ?hash"
    by (simp add: up)
  have hash_v: "(if truthy uidHashField then Inr uidHashField
                 else (case JStr v of
                         JStr x \<Rightarrow> Inr (JStr (H (toUpperCase x)))
                       | _ \<Rightarrow> Inl TypeError)) = ?hash"
    by simp
  show ?thesis
  proof (cases ?out)
    case (Inl e)
    show ?thesis
      unfolding handleRfidAuth_def Let_def oju ojv hash_u hash_v Inl if_not_P [OF guard(1)]
        if_not_P [OF guard(2)] sum.case
      by (intro publish_server_error_view refl)
  next
    case (Inr r)
    show ?thesis
      unfolding handleRfidAuth_def Let_def oju ojv hash_u hash_v Inr if_not_P [OF guard(1)]
        if_not_P [OF guard(2)] sum.case db_publish
      by (rule createAccessLog_case_view [OF assms publish_result_view [OF refl]])
  qed
qed

lemma processEnrollmentScan_cards:
  assumes "door s = Some d" "enrollmentMode d" "enrollmentUserId d = Some A" "A \<noteq> 0"
    and "\<forall>c \<in> set (rfidCards s).
           \<not> (status c = ACTIVE \<and> uidHash c = H (toUpperCase u) \<and> card_userId c \<noteq> A)"
  shows "rfidCards (snd (processEnrollmentScan H toUpperCase now u s)) =
           filter (\<lambda>c. uidHash c \<noteq> H (toUpperCase u) \<and> card_userId c \<noteq> A) (rfidCards s)
           @ [\<lparr>card_id = nextCardId s, card_doorId = door_id d, card_userId = A,
                uid = toUpperCase u, uidHash = H (toUpperCase u), status = ACTIVE\<rparr>]"
proof -
  let ?h = "H (toUpperCase u)"
  have f: "find (\<lambda>c. uidHash c = ?h \<and> status c = ACTIVE \<and> card_userId c \<noteq> A) (rfidCards s)
             = None"
    using assms(5) by (auto simp add: find_None_iff)
  have flt: "filter (\<lambda>c. (uidHash c = ?h \<longrightarrow> card_userId c = A) \<and> card_userId c \<noteq> A) cards
             = filter (\<lambda>c. uidHash c \<noteq> ?h \<and> card_userId c \<noteq> A) cards" for cards
    by (rule filter_cong) auto
  show ?thesis
    using assms(1-4) f
    by (simp add: processEnrollmentScan_def falsy_id_def Let_def exit_enrollment_def
          create_card_def flt split: option.splits)
qed

lemma handleRfidAuth_first_message:
  assumes "mqttClient w" and "falsy uidHashField" and "u \<noteq> []"
    and "authenticateRfid (H (toUpperCase u)) (db w) = Inr r"
  shows "take (Suc (length (outbox w)))
           (outbox (handleRfidAuth H toUpperCase env now uidHashField (JStr u) w)) =
         outbox w @
           [(''door/rfid/result'',
             RfidResult (JStr u) (allowed r) (Some (or_else (auth_username r) ''Unknown''))
               (reason r) now)]"
proof -
  have outcome:
    "(case (if truthy uidHashField then Inr uidHashField
            else (case JStr u of JStr x \<Rightarrow> Inr (JStr (H (toUpperCase x)))
                  | _ \<Rightarrow> Inl TypeError)) of
        Inl e \<Rightarrow> Inl e
      | Inr (JStr h) \<Rightarrow> authenticateRfid h (db w)
      | Inr _ \<Rightarrow> Inl ValidationError) = Inr r"
    using assms(2,4) by (simp add: falsy_def)
  have guard: "\<not> (falsy uidHashField \<and> falsy (JStr u))"
    using assms(3) by (simp add: falsy_def)
  show ?thesis
    unfolding handleRfidAuth_def Let_def outcome if_not_P [OF guard] sum.case
    using assms(1,3)
    by (simp add: or_json_def createAccessLog_JStr sendToAll_case sendToAll_outbox
          publish_def publish_server_error_def sendToAll_client)
qed

lemma createAccessLog_resolves:
  assumes "u \<noteq> []" and "falsy_id given" and "\<not> logInsertRejects env"
    and "find (\<lambda>c. uidHash c = H (toUpperCase u) \<and> status c = ACTIVE) (rfidCards s) = Some c"
    and "users s (card_userId c) = Some holder" and "card_userId c \<noteq> 0"
  shows "map_sum id log_userId
           (fst (createAccessLog H toUpperCase env now ev (JStr u) meth given s))
         = Inr (Some (card_userId c))"
  using assms by (simp add: createAccessLog_JStr getUserByRfidHash_def)

text \<open>
  C9. Every entry point takes the upper-case form of the UID before it digests, so UID
  handling is insensitive to letter case. For two UIDs equal up to letter case: an
  enrollment scan and a manual card entry give the same result and the same store;
  authentication leaves the same process state (store, published decisions, user names
  and reasons, notifications) up to the UID text echoed in messages and log entries; and
  a log entry written for either is attributed to the same user. What is stored and looked
  up is the upper-case form: a successful enrollment scan stores the upper-case UID with
  the digest of the upper-case UID; authentication by a raw UID publishes first the
  decision for the digest of the upper-case UID; and a log entry without a given user is
  attributed to the holder of the ACTIVE card with the digest of the upper-case UID.
\<close>

theorem uid_handling_case_insensitive:
  "(equal_up_to_case toUpperCase u v \<longrightarrow>
      processEnrollmentScan H toUpperCase now u s = processEnrollmentScan H toUpperCase now v s
      \<and> addRfidCard H toUpperCase A u s = addRfidCard H toUpperCase A v s
      \<and> world_view (handleRfidAuth H toUpperCase env now uidHashField (JStr u) w)
          = world_view (handleRfidAuth H toUpperCase env now uidHashField (JStr v) w)
      \<and> map_sum id log_view
            (fst (createAccessLog H toUpperCase env now ev (JStr u) meth given s))
          = map_sum id log_view
              (fst (createAccessLog H toUpperCase env now ev (JStr v) meth given s))
      \<and> store_view (snd (createAccessLog H toUpperCase env now ev (JStr u) meth given s))
          = store_view (snd (createAccessLog H toUpperCase env now ev (JStr v) meth given s)))
   \<and> (door s = Some d \<and> enrollmentMode d \<and> enrollmentUserId d = Some A \<and> A \<noteq> 0
        \<and> (\<forall>c \<in> set (rfidCards s).
              \<not> (status c = ACTIVE \<and> uidHash c = H (toUpperCase u) \<and> card_userId c \<noteq> A))
        \<longrightarrow>
      rfidCards (snd (processEnrollmentScan H toUpperCase now u s)) =
        filter (\<lambda>c. uidHash c \<noteq> H (toUpperCase u) \<and> card_userId c \<noteq> A) (rfidCards s)
        @ [\<lparr>card_id = nextCardId s, card_doorId = door_id d, card_userId = A,
             uid = toUpperCase u, uidHash = H (toUpperCase u), status = ACTIVE\<rparr>])
   \<and> (mqttClient w \<and> falsy uidHashField \<and> u \<noteq> []
        \<and> authenticateRfid (H (toUpperCase u)) (db w) = Inr r \<longrightarrow>
      take (Suc (length (outbox w)))
        (outbox (handleRfidAuth H toUpperCase env now uidHashField (JStr u) w)) =
      outbox w @
        [(''door/rfid/result'',
          RfidResult (JStr u) (allowed r) (Some (or_else (auth_username r) ''Unknown''))
            (reason r) now)])
   \<and> (u \<noteq> [] \<and> falsy_id given \<and> \<not> logInsertRejects env
        \<and> find (\<lambda>c. uidHash c = H (toUpperCase u) \<and> status c = ACTIVE) (rfidCards s)
            = Some found
        \<and> users s (card_userId found) = Some holder \<and> card_userId found \<noteq> 0 \<longrightarrow>
      map_sum id log_userId
        (fst (createAccessLog H toUpperCase env now ev (JStr u) meth given s))
      = Inr (Some (card_userId found)))"
proof -
  have rel: "processEnrollmentScan H toUpperCase now u s
               = processEnrollmentScan H toUpperCase now v s
      \<and> addRfidCard H toUpperCase A u s = addRfidCard H toUpperCase A v s
      \<and> world_view (handleRfidAuth H toUpperCase env now uidHashField (JStr u) w)
          = world_view (handleRfidAuth H toUpperCase env now uidHashField (JStr v) w)
      \<and> map_sum id log_view
            (fst (createAccessLog H toUpperCase env now ev (JStr u) meth given s))
          = map_sum id log_view
              (fst (createAccessLog H toUpperCase env now ev (JStr v) meth given s))
      \<and> store_view (snd (createAccessLog H toUpperCase env now ev (JStr u) meth given s))
          = store_view (snd (createAccessLog H toUpperCase env now ev (JStr v) meth given s))"
    if e: "equal_up_to_case toUpperCase u v"
  proof -
    from e have up: "toUpperCase u = toUpperCase v"
      by (simp add: equal_up_to_case_def)
    have scan: "processEnrollmentScan H toUpperCase now u s
                  = processEnrollmentScan H toUpperCase now v s"
      unfolding processEnrollmentScan_def up ..
    have add: "addRfidCard H toUpperCase A u s = addRfidCard H toUpperCase A v s"
      unfolding addRfidCard_def up ..
    show ?thesis
      using scan add handleRfidAuth_case [OF e] createAccessLog_case [OF e]
      by (simp only:)
  qed
  have enroll:
    "door s = Some d \<and> enrollmentMode d \<and> enrollmentUserId d = Some A \<and> A \<noteq> 0
        \<and> (\<forall>c \<in> set (rfidCards s).
              \<not> (status c = ACTIVE \<and> uidHash c = H (toUpperCase u) \<and> card_userId c \<noteq> A))
        \<longrightarrow>
      rfidCards (snd (processEnrollmentScan H toUpperCase now u s)) =
        filter (\<lambda>c. uidHash c \<noteq> H (toUpperCase u) \<and> card_userId c \<noteq> A) (rfidCards s)
        @ [\<lparr>card_id = nextCardId s, card_doorId = door_id d, card_userId = A,
             uid = toUpperCase u, uidHash = H (toUpperCase u), status = ACTIVE\<rparr>]"
    by (intro impI, elim conjE, rule processEnrollmentScan_cards; assumption)
  have auth:
    "mqttClient w \<and> falsy uidHashField \<and> u \<noteq> []
        \<and> authenticateRfid (H (toUpperCase u)) (db w) = Inr r \<longrightarrow>
      take (Suc (length (outbox w)))
        (outbox (handleRfidAuth H toUpperCase env now uidHashField (JStr u) w)) =
      outbox w @
        [(''door/rfid/result'',
          RfidResult (JStr u) (allowed r) (Some (or_else (auth_username r) ''Unknown''))
            (reason r) now)]"
    by (intro impI, elim conjE, rule handleRfidAuth_first_message; assumption)
  have logs:
    "u \<noteq> [] \<and> falsy_id given \<and> \<not> logInsertRejects env
        \<and> find (\<lambda>c. uidHash c = H (toUpperCase u) \<and> status c = ACTIVE) (rfidCards s)
            = Some found
        \<and> users s (card_userId found) = Some holder \<and> card_userId found \<noteq> 0 \<longrightarrow>
      map_sum id log_userId
        (fst (createAccessLog H toUpperCase env now ev (JStr u) meth given s))
      = Inr (Some (card_userId found))"
    by (intro impI, elim conjE, rule createAccessLog_resolves; assumption)
  show ?thesis
    by (rule conjI [OF impI [OF rel] conjI [OF enroll conjI [OF auth logs]]])
qed

theorem uid_handling_case_insensitive_witness:
  "equal_up_to_case ascii_upper ''abCD1234'' ''ABcd1234''
   \<and> processEnrollmentScan sample_digest ascii_upper 5 ''abCD1234'' sample_store
       = processEnrollmentScan sample_digest ascii_upper 5 ''ABcd1234'' sample_store
   \<and> world_view (handleRfidAuth sample_digest ascii_upper sample_env 9 JUndefined
                   (JStr ''abCD1234'') sample_world)
       = world_view (handleRfidAuth sample_digest ascii_upper sample_env 9 JUndefined
                       (JStr ''ABcd1234'') sample_world)
   \<and> rfidCards (snd (processEnrollmentScan sample_digest ascii_upper 5 ''0a0b0c0d''
                        sample_store))
       = [bob_card,
          \<lparr>card_id = 3, card_doorId = 7, card_userId = 1, uid = ''0A0B0C0D'',
            uidHash = sample_digest ''0A0B0C0D'', status = ACTIVE\<rparr>]
   \<and> take 1 (outbox (handleRfidAuth sample_digest ascii_upper sample_env 9 JUndefined
                       (JStr ''abcd1234'') sample_world))
       = [(''door/rfid/result'',
           RfidResult (JStr ''abcd1234'') True (Some ''bob'') None 9)]
   \<and> map_sum id log_userId
        (fst (createAccessLog sample_digest ascii_upper sample_env 9 ''access_granted''
                (JStr ''abcd1234'') (Some ''rfid'') None sample_store))
       = Inr (Some 2)"
proof -
  have h: "equal_up_to_case ascii_upper ''abCD1234'' ''ABcd1234''"
    unfolding equal_up_to_case_def by code_simp
  have enrolling: "door sample_store = Some sample_door" "enrollmentMode sample_door"
    "enrollmentUserId sample_door = Some 1" "(1::nat) \<noteq> 0"
    by (simp_all add: sample_store_def sample_door_def)
  have free: "\<forall>c \<in> set (rfidCards sample_store).
                \<not> (status c = ACTIVE \<and> uidHash c = sample_digest (ascii_upper ''0a0b0c0d'')
                    \<and> card_userId c \<noteq> 1)"
    by (simp add: sample_store_def bob_card_def alice_old_card_def upper_0a0b0c0d
          sample_digest_def)
  have client: "mqttClient sample_world" "falsy JUndefined" "''abcd1234'' \<noteq> []"
    by (simp_all add: sample_world_def falsy_def)
  have auth: "authenticateRfid (sample_digest (ascii_upper ''abcd1234'')) (db sample_world) =
                Inr \<lparr>allowed = True, reason = None, userId = Some 2,
                     auth_username = Some ''bob'', auth_role = Some ADMIN\<rparr>"
    by (simp add: upper_abcd1234 authenticateRfid_def sample_world_def sample_store_def
          bob_card_def alice_old_card_def bob_def)
  have lookup: "falsy_id None" "\<not> logInsertRejects sample_env"
    "find (\<lambda>c. uidHash c = sample_digest (ascii_upper ''abcd1234'') \<and> status c = ACTIVE)
       (rfidCards sample_store) = Some bob_card"
    "users sample_store (card_userId bob_card) = Some bob" "card_userId bob_card \<noteq> 0"
    by (simp_all add: falsy_id_def sample_env_def upper_abcd1234 sample_store_def
          bob_card_def)
  note rel = uid_handling_case_insensitive
      [where toUpperCase = ascii_upper and u = "''abCD1234''" and v = "''ABcd1234''"
        and H = sample_digest and now = 5 and s = sample_store, THEN conjunct1, rule_format,
        OF h, THEN conjunct1]
  note view = uid_handling_case_insensitive
      [where toUpperCase = ascii_upper and u = "''abCD1234''" and v = "''ABcd1234''"
        and H = sample_digest and now = 9 and env = sample_env and uidHashField = JUndefined
        and w = sample_world, THEN conjunct1, rule_format, OF h, THEN conjunct2,
        THEN conjunct2, THEN conjunct1]
  note pos = uid_handling_case_insensitive
      [where toUpperCase = ascii_upper and u = "''0a0b0c0d''" and H = sample_digest
        and now = 5 and s = sample_store and d = sample_door and A = 1,
        THEN conjunct2, THEN conjunct1, rule_format, OF conjI [OF enrolling(1)
          conjI [OF enrolling(2) conjI [OF enrolling(3) conjI [OF enrolling(4) free]]]]]
  note first = uid_handling_case_insensitive
      [where toUpperCase = ascii_upper and u = "''abcd1234''" and H = sample_digest
        and now = 9 and env = sample_env and uidHashField = JUndefined and w = sample_world,
        THEN conjunct2, THEN conjunct2, THEN conjunct1, rule_format,
        OF conjI [OF client(1) conjI [OF client(2) conjI [OF client(3) auth]]]]
  note resolved = uid_handling_case_insensitive
      [where toUpperCase = ascii_upper and u = "''abcd1234''" and H = sample_digest
        and now = 9 and env = sample_env and s = sample_store and given = None
        and ev = "''access_granted''" and meth = "Some ''rfid''" and found = bob_card
        and holder = bob,
        THEN conjunct2, THEN conjunct2, THEN conjunct2, rule_format,
        OF conjI [OF client(3) conjI [OF lookup(1) conjI [OF lookup(2)
          conjI [OF lookup(3) conjI [OF lookup(4) lookup(5)]]]]]]
  have cards: "rfidCards (snd (processEnrollmentScan sample_digest ascii_upper 5 ''0a0b0c0d''
                        sample_store))
       = [bob_card,
          \<lparr>card_id = 3, card_doorId = 7, card_userId = 1, uid = ''0A0B0C0D'',
            uidHash = sample_digest ''0A0B0C0D'', status = ACTIVE\<rparr>]"
    unfolding pos
    by (simp add: upper_0a0b0c0d sample_store_def sample_door_def bob_card_def
          alice_old_card_def sample_digest_def)
  have msg: "take 1 (outbox (handleRfidAuth sample_digest ascii_upper sample_env 9 JUndefined
                       (JStr ''abcd1234'') sample_world))
       = [(''door/rfid/result'',
           RfidResult (JStr ''abcd1234'') True (Some ''bob'') None 9)]"
    using first by (simp add: sample_world_def or_else_def)
  have usr: "map_sum id log_userId
        (fst (createAccessLog sample_digest ascii_upper sample_env 9 ''access_granted''
                (JStr ''abcd1234'') (Some ''rfid'') None sample_store))
       = Inr (Some 2)"
    using resolved by (simp add: bob_card_def)
  show ?thesis
    using h rel view cards msg usr by (simp only: simp_thms)
qed

subsection \<open>Changing the PIN\<close>

lemma isDigit_iff: "isDigit c = (c \<in> set ''0123456789'')"
proof
  assume "isDigit c"
  then have "(of_char c :: nat) \<in> {48, 49, 50, 51, 52, 53, 54, 55, 56, 57}"
    unfolding isDigit_def by simp arith
  then have "char_of (of_char c :: nat) \<in> char_of ` {48 :: nat, 49, 50, 51, 52, 53, 54, 55, 56, 57}"
    by (rule imageI)
  moreover have "char_of ` {48 :: nat, 49, 50, 51, 52, 53, 54, 55, 56, 57} = set ''0123456789''"
    by code_simp
  ultimately show "c \<in> set ''0123456789''"
    by (simp only: char_of_char)
next
  assume "c \<in> set ''0123456789''"
  then show "isDigit c"
    by (auto simp add: isDigit_def)
qed

lemma four_digits_iff:
  "four_digits (Some str) = (\<not> (str = [] \<or> length str \<noteq> 4 \<or> \<not> digits_only str))"
proof -
  define D where "D = list_all (\<lambda>c. c \<in> set ''0123456789'') str"
  have "isDigit = (\<lambda>c. c \<in> set ''0123456789'')"
    by (rule ext) (rule isDigit_iff)
  then have e: "list_all isDigit str = D"
    unfolding D_def by (simp only:)
  have n: "length str = 4 \<Longrightarrow> str \<noteq> []"
    by auto
  show ?thesis
    unfolding four_digits_def digits_only_def e option.case D_def [symmetric]
    using n by blast
qed

lemma four_digits_None: "\<not> four_digits None"
  by (simp add: four_digits_def)

lemma updateDoorPin_wrong:
  assumes "H cur \<noteq> pinHash (fst (getOrCreateDoor H ''1234'' s))"
  shows "updateDoorPin H newPin cur s = (Inl WrongCurrentPin, snd (getOrCreateDoor H ''1234'' s))"
  using assms by (simp add: updateDoorPin_def Let_def case_prod_beta)

lemma updateDoorPin_right:
  assumes "H cur = pinHash (fst (getOrCreateDoor H ''1234'' s))"
  shows "updateDoorPin H newPin cur s =
           (Inr ((fst (getOrCreateDoor H ''1234'' s))\<lparr>pinHash := H newPin\<rparr>),
            (snd (getOrCreateDoor H ''1234'' s))
              \<lparr>door := Some ((fst (getOrCreateDoor H ''1234'' s))\<lparr>pinHash := H newPin\<rparr>)\<rparr>)"
  using assms by (simp add: updateDoorPin_def Let_def case_prod_beta)

text \<open>
  C8. \<^verbatim>\<open>PATCH /doors/pin\<close> with body fields \<open>pin\<close> and \<open>currentPin\<close>. If either is
  not exactly 4 decimal digits the response is 400, the state is unchanged and the outcome
  is the same for every digest function and environment (no digest enters it). Otherwise,
  with the stored digest being that of the door (created with the default PIN if there is
  none yet): if the digest of \<open>currentPin\<close> differs from it, the response is 401 and the
  stored digest stays; if it is equal, the stored digest becomes the digest of \<open>pin\<close> and
  one \<open>door/config/pin\<close> message carrying it is published (followed by the alert's own
  message when the alert service can publish), whatever becomes of the notification; the
  response is then 200, or 400 when the notification's token query is rejected.
\<close>

theorem patch_pin_outcomes:
  "(\<not> four_digits pin \<or> \<not> four_digits currentPin \<longrightarrow>
      status_code (fst (patch_pin H env now admin pin currentPin w)) = 400
      \<and> snd (patch_pin H env now admin pin currentPin w) = w
      \<and> patch_pin H' env' now admin pin currentPin w
          = patch_pin H env now admin pin currentPin w)
   \<and> (four_digits (Some newPin) \<and> four_digits (Some cur)
        \<and> H cur \<noteq> pinHash (fst (getOrCreateDoor H ''1234'' (db w))) \<longrightarrow>
      fst (patch_pin H env now admin (Some newPin) (Some cur) w)
        = \<lparr>status_code = 401, body = ErrorMessage WrongCurrentPin\<rparr>
      \<and> snd (patch_pin H env now admin (Some newPin) (Some cur) w)
        = w\<lparr>db := snd (getOrCreateDoor H ''1234'' (db w))\<rparr>
      \<and> map_option pinHash
           (door (db (snd (patch_pin H env now admin (Some newPin) (Some cur) w))))
        = Some (pinHash (fst (getOrCreateDoor H ''1234'' (db w)))))
   \<and> (four_digits (Some newPin) \<and> four_digits (Some cur)
        \<and> H cur = pinHash (fst (getOrCreateDoor H ''1234'' (db w))) \<and> mqttClient w \<longrightarrow>
      map_option pinHash
           (door (db (snd (patch_pin H env now admin (Some newPin) (Some cur) w))))
        = Some (H newPin)
      \<and> outbox (snd (patch_pin H env now admin (Some newPin) (Some cur) w))
        = outbox w @ [(''door/config/pin'', ConfigPin (H newPin) now)]
            @ (if alertMqttPublish w
               then [(''home/alert/new'',
                      AlertNew \<lparr>alert_id = Suc (length (alerts (db w))), alert_type = ''door'',
                                level = INFO, message = PinChangedBy admin,
                                createdAt = now\<rparr>)]
               else [])
      \<and> fst (patch_pin H env now admin (Some newPin) (Some cur) w)
        = (if (firebaseInitialized w \<or> firebaseCredentials env) \<and> tokenQueryRejects env
           then \<lparr>status_code = 400, body = ErrorMessage DatabaseError\<rparr>
           else \<lparr>status_code = 200,
                 body = PinUpdated (door_id (fst (getOrCreateDoor H ''1234'' (db w))))\<rparr>))"
proof -
  have bad: "\<not> four_digits pin \<or> \<not> four_digits currentPin \<Longrightarrow>
      patch_pin G e now admin pin currentPin w =
        (\<lparr>status_code = 400,
          body = (if four_digits currentPin then NewPinMustBeFourDigits
                  else CurrentPinMustBeFourDigits)\<rparr>, w)" for G e
    by (cases pin; cases currentPin)
      (auto simp add: patch_pin_def four_digits_iff four_digits_None)
  have c1: "\<not> four_digits pin \<or> \<not> four_digits currentPin \<longrightarrow>
      status_code (fst (patch_pin H env now admin pin currentPin w)) = 400
      \<and> snd (patch_pin H env now admin pin currentPin w) = w
      \<and> patch_pin H' env' now admin pin currentPin w
          = patch_pin H env now admin pin currentPin w"
    using bad [of H env] bad [of H' env'] by auto
  have c2: "four_digits (Some newPin) \<and> four_digits (Some cur)
        \<and> H cur \<noteq> pinHash (fst (getOrCreateDoor H ''1234'' (db w))) \<longrightarrow>
      fst (patch_pin H env now admin (Some newPin) (Some cur) w)
        = \<lparr>status_code = 401, body = ErrorMessage WrongCurrentPin\<rparr>
      \<and> snd (patch_pin H env now admin (Some newPin) (Some cur) w)
        = w\<lparr>db := snd (getOrCreateDoor H ''1234'' (db w))\<rparr>
      \<and> map_option pinHash
           (door (db (snd (patch_pin H env now admin (Some newPin) (Some cur) w))))
        = Some (pinHash (fst (getOrCreateDoor H ''1234'' (db w))))"
    by (auto simp add: patch_pin_def four_digits_iff updateDoorPin_wrong getOrCreateDoor_door)
  have c3: "four_digits (Some newPin) \<and> four_digits (Some cur)
        \<and> H cur = pinHash (fst (getOrCreateDoor H ''1234'' (db w))) \<and> mqttClient w \<longrightarrow>
      map_option pinHash
           (door (db (snd (patch_pin H env now admin (Some newPin) (Some cur) w))))
        = Some (H newPin)
      \<and> outbox (snd (patch_pin H env now admin (Some newPin) (Some cur) w))
        = outbox w @ [(''door/config/pin'', ConfigPin (H newPin) now)]
            @ (if alertMqttPublish w
               then [(''home/alert/new'',
                      AlertNew \<lparr>alert_id = Suc (length (alerts (db w))), alert_type = ''door'',
                                level = INFO, message = PinChangedBy admin,
                                createdAt = now\<rparr>)]
               else [])
      \<and> fst (patch_pin H env now admin (Some newPin) (Some cur) w)
        = (if (firebaseInitialized w \<or> firebaseCredentials env) \<and> tokenQueryRejects env
           then \<lparr>status_code = 400, body = ErrorMessage DatabaseError\<rparr>
           else \<lparr>status_code = 200,
                 body = PinUpdated (door_id (fst (getOrCreateDoor H ''1234'' (db w))))\<rparr>)"
    by (auto simp add: patch_pin_def four_digits_iff updateDoorPin_right publish_def
          createAlert_def Let_def getOrCreateDoor_alerts sendToAll_case sendToAll_outbox
          sendToAll_door)
  show ?thesis using c1 c2 c3 by blast
qed


theorem patch_pin_outcomes_witness:
  "status_code (fst (patch_pin sample_digest sample_env 9 ''bob'' (Some ''12a4'')
                       (Some ''1234'') sample_world)) = 400
   \<and> snd (patch_pin sample_digest sample_env 9 ''bob'' (Some ''12a4'') (Some ''1234'')
           sample_world) = sample_world
   \<and> fst (patch_pin sample_digest sample_env 9 ''bob'' (Some ''4321'') (Some ''0000'')
           sample_world)
       = \<lparr>status_code = 401, body = ErrorMessage WrongCurrentPin\<rparr>
   \<and> map_option pinHash
        (door (db (snd (patch_pin sample_digest sample_env 9 ''bob'' (Some ''4321'')
                          (Some ''0000'') sample_world))))
       = Some (sample_digest ''1234'')
   \<and> fst (patch_pin sample_digest sample_env 9 ''bob'' (Some ''4321'') (Some ''1234'')
           sample_world)
       = \<lparr>status_code = 200, body = PinUpdated 7\<rparr>
   \<and> map_option pinHash
        (door (db (snd (patch_pin sample_digest sample_env 9 ''bob'' (Some ''4321'')
                          (Some ''1234'') sample_world))))
       = Some (sample_digest ''4321'')
   \<and> outbox (snd (patch_pin sample_digest sample_env 9 ''bob'' (Some ''4321'')
                     (Some ''1234'') sample_world))
       = [(''door/config/pin'', ConfigPin (sample_digest ''4321'') 9),
          (''home/alert/new'',
           AlertNew \<lparr>alert_id = 1, alert_type = ''door'', level = INFO,
                     message = PinChangedBy ''bob'', createdAt = 9\<rparr>)]"
proof -
  have g: "getOrCreateDoor sample_digest ''1234'' (db sample_world)
             = (sample_door, sample_store)"
    by (simp add: getOrCreateDoor_def sample_world_def sample_store_def)
  have bad: "\<not> four_digits (Some ''12a4'')"
    by (simp add: four_digits_def)
  have ok: "four_digits (Some ''4321'')" "four_digits (Some ''0000'')"
    "four_digits (Some ''1234'')"
    by (simp_all add: four_digits_def)
  have stored: "pinHash (fst (getOrCreateDoor sample_digest ''1234'' (db sample_world)))
                  = sample_digest ''1234''"
    by (simp add: g sample_door_def)
  have wrong: "sample_digest ''0000'' \<noteq> sample_digest ''1234''"
    by (simp add: sample_digest_def)
  have m: "mqttClient sample_world" "alertMqttPublish sample_world"
    "outbox sample_world = []" "alerts (db sample_world) = []"
    "\<not> tokenQueryRejects sample_env"
    by (simp_all add: sample_world_def sample_store_def sample_env_def)
  have p: "pinHash sample_door = sample_digest ''1234''" "door_id sample_door = 7"
    by (simp_all add: sample_door_def)
  note t1 = patch_pin_outcomes [where H = sample_digest and H' = sample_digest
      and env = sample_env and env' = sample_env and now = 9
      and admin = "''bob''" and pin = "Some ''12a4''" and currentPin = "Some ''1234''"
      and w = sample_world and newPin = "''4321''" and cur = "''0000''"]
  note t2 = patch_pin_outcomes [where H = sample_digest and H' = sample_digest
      and env = sample_env and env' = sample_env and now = 9
      and admin = "''bob''" and pin = "Some ''12a4''" and currentPin = "Some ''1234''"
      and w = sample_world and newPin = "''4321''" and cur = "''1234''"]
  show ?thesis
    using t1 t2 bad ok wrong m
    by (simp add: stored g p) (simp add: sample_store_def p)
qed

end
